theory Spec2Isabelle
  imports Complex_Main
begin

section \<open>Numbers\<close>

text \<open>
  A JavaScript number is an IEEE double. The model leaves the doubles and their arithmetic
  open: \<open>'f\<close> is the type of the numbers, and a record of type \<open>'f arith\<close> holds the
  operations of the engine on them. Nothing is assumed of these operations, so a property
  proved for every such record holds of double arithmetic, with its rounding, its
  infinities and NaN.
\<close>

record 'f arith =
  fadd :: "'f \<Rightarrow> 'f \<Rightarrow> 'f"
  fsub :: "'f \<Rightarrow> 'f \<Rightarrow> 'f"
  fmul :: "'f \<Rightarrow> 'f \<Rightarrow> 'f"
  fdiv :: "'f \<Rightarrow> 'f \<Rightarrow> 'f"
  fsqrt :: "'f \<Rightarrow> 'f"
  fround :: "'f \<Rightarrow> 'f"
  fconst :: "rat \<Rightarrow> 'f"
  fnan :: 'f
  isNaN :: "'f \<Rightarrow> bool"
  isZero :: "'f \<Rightarrow> bool"
  fless :: "'f \<Rightarrow> 'f \<Rightarrow> bool"

text \<open>
  \<open>fadd\<close>, \<open>fsub\<close>, \<open>fmul\<close> and \<open>fdiv\<close> are \<open>+\<close>, \<open>-\<close>, \<open>*\<close> and \<open>/\<close>; \<open>fsqrt\<close> is \<open>Math.sqrt\<close> and
  \<open>fround\<close> is \<open>Math.round\<close>; \<open>fconst q\<close> is the number that a literal of value \<open>q\<close> denotes
  (also the length of an array as a number); \<open>fnan\<close> is NaN, which undefined becomes in
  arithmetic; \<open>isZero\<close> holds of \<open>+0\<close> and \<open>-0\<close>; \<open>fless\<close> is \<open><\<close>.
\<close>

text \<open>A number is falsy when it is a zero or NaN.\<close>

definition jsFalsy :: "'f arith \<Rightarrow> 'f \<Rightarrow> bool" where
  "jsFalsy ar x = (isZero ar x \<or> isNaN ar x)"

text \<open>Truthiness of a number that may be absent (undefined is falsy).\<close>

definition jsTruthy :: "'f arith \<Rightarrow> 'f option \<Rightarrow> bool" where
  "jsTruthy ar x = (case x of None \<Rightarrow> False | Some v \<Rightarrow> \<not> jsFalsy ar v)"

text \<open>\<open>x || 0\<close> on a number that may be absent.\<close>

definition orZero :: "'f arith \<Rightarrow> 'f option \<Rightarrow> 'f" where
  "orZero ar x =
     (case x of None \<Rightarrow> fconst ar 0 | Some v \<Rightarrow> if jsFalsy ar v then fconst ar 0 else v)"

section \<open>The embedding cache of server.js\<close>

text \<open>
  JavaScript strings are modelled as \<open>string\<close>; \<open>charCodeAt\<close> is \<open>of_char\<close>, so the
  model covers the code units below 256.
\<close>

type_synonym 'f embedding = "'f list"

text \<open>
  A JavaScript \<open>Map\<close> keeps its entries in insertion order, and \<open>set\<close> on a key that is
  present replaces the value where the entry stands. The cache is therefore an association
  list, oldest entry first.
\<close>

type_synonym 'f cache = "(string \<times> 'f embedding) list"

definition MAX_CACHE_SIZE :: nat where
  "MAX_CACHE_SIZE = 100"

text \<open>ToInt32 of ECMAScript, which the operators \<open><<\<close> and \<open>&\<close> apply to their operands.\<close>

definition toInt32 :: "int \<Rightarrow> int" where
  "toInt32 x = (let m = x mod 2 ^ 32 in if m \<ge> 2 ^ 31 then m - 2 ^ 32 else m)"

text \<open>One round of the loop of \<open>hashText\<close>:
  \<^verbatim>\<open>hash = ((hash << 5) - hash) + char; hash = hash & hash;\<close>
  Every intermediate value is an integer of magnitude below \<open>2^33\<close>, on which the arithmetic of
  doubles is exact.\<close>

definition hashStep :: "int \<Rightarrow> char \<Rightarrow> int" where
  "hashStep hash ch = toInt32 ((toInt32 (toInt32 hash * 2 ^ 5) - hash) + of_char ch)"

definition digitChar :: "int \<Rightarrow> char" where
  "digitChar n = char_of (48 + n)"

text \<open>\<open>Number.prototype.toString\<close> on an integer of magnitude below \<open>2^53\<close>: its decimal
  digits, after a minus sign when it is negative.\<close>

function toString :: "int \<Rightarrow> string" where
  "toString n =
     (if n < 0 then CHR ''-'' # toString (- n)
      else if n < 10 then [digitChar n]
      else toString (n div 10) @ [digitChar (n mod 10)])"
  by pat_completeness auto
termination
  by (relation "measure (\<lambda>n. if n < 0 then Suc (nat (- n)) else nat n)") auto

declare toString.simps [simp del]

definition hashText :: "string \<Rightarrow> string" where
  "hashText text = toString \<bar>foldl hashStep 0 text\<bar>"

text \<open>\<open>Map.prototype.get\<close>, \<open>delete\<close>, \<open>set\<close>, \<open>size\<close> and \<open>has\<close>.\<close>

definition mapGet :: "'k \<Rightarrow> ('k \<times> 'v) list \<Rightarrow> 'v option" where
  "mapGet k m = map_of m k"

definition mapDelete :: "'k \<Rightarrow> ('k \<times> 'v) list \<Rightarrow> ('k \<times> 'v) list" where
  "mapDelete k m = filter (\<lambda>kv. fst kv \<noteq> k) m"

fun mapSet :: "'k \<Rightarrow> 'v \<Rightarrow> ('k \<times> 'v) list \<Rightarrow> ('k \<times> 'v) list" where
  "mapSet k v [] = [(k, v)]"
| "mapSet k v (kv # m) = (if fst kv = k then (k, v) # m else kv # mapSet k v m)"

definition mapSize :: "('k \<times> 'v) list \<Rightarrow> nat" where
  "mapSize m = length m"

definition mapHas :: "'k \<Rightarrow> ('k \<times> 'v) list \<Rightarrow> bool" where
  "mapHas k m = (k \<in> fst ` set m)"

definition getCachedEmbedding :: "string \<Rightarrow> 'f cache \<Rightarrow> 'f embedding option" where
  "getCachedEmbedding text embeddingCache = mapGet (hashText text) embeddingCache"

text \<open>
  \<open>embeddingCache.keys().next().value\<close> is undefined on an empty map, and deleting
  undefined removes nothing.
\<close>

definition setCachedEmbedding :: "string \<Rightarrow> 'f embedding \<Rightarrow> 'f cache \<Rightarrow> 'f cache" where
  "setCachedEmbedding text embedding embeddingCache =
     (let evicted =
        (if mapSize embeddingCache \<ge> MAX_CACHE_SIZE
         then (case embeddingCache of [] \<Rightarrow> embeddingCache
               | first # _ \<Rightarrow> mapDelete (fst first) embeddingCache)
         else embeddingCache)
      in mapSet (hashText text) embedding evicted)"

text \<open>A run of cache operations; a lookup leaves the cache as it is.\<close>

datatype 'f cacheOp = SetOp string "'f embedding" | GetOp string

fun applyOp :: "'f cache \<Rightarrow> 'f cacheOp \<Rightarrow> 'f cache" where
  "applyOp c (SetOp text e) = setCachedEmbedding text e c"
| "applyOp c (GetOp text) = c"

definition runOps :: "'f cacheOp list \<Rightarrow> 'f cache" where
  "runOps ops = foldl applyOp [] ops"

section \<open>Cosine similarity\<close>

text \<open>Reading an array beyond its length yields undefined, which arithmetic turns into
  NaN.\<close>

definition arrayAt :: "'f arith \<Rightarrow> 'f list \<Rightarrow> nat \<Rightarrow> 'f" where
  "arrayAt ar xs i = (if i < length xs then xs ! i else fnan ar)"

text \<open>The body of the \<open>for\<close> loop of \<open>cosineSimilarity\<close> on (dotProduct, normA, normB).\<close>

definition cosineStep :: "'f arith \<Rightarrow> 'f list \<Rightarrow> 'f list \<Rightarrow> 'f \<times> 'f \<times> 'f \<Rightarrow> nat \<Rightarrow> 'f \<times> 'f \<times> 'f" where
  "cosineStep ar a b acc i =
     (case acc of (dotProduct, normA, normB) \<Rightarrow>
        (fadd ar dotProduct (fmul ar (arrayAt ar a i) (arrayAt ar b i)),
         fadd ar normA (fmul ar (arrayAt ar a i) (arrayAt ar a i)),
         fadd ar normB (fmul ar (arrayAt ar b i) (arrayAt ar b i))))"

definition cosineSimilarity :: "'f arith \<Rightarrow> 'f list \<Rightarrow> 'f list \<Rightarrow> 'f" where
  "cosineSimilarity ar a b =
     (if length a = 0 \<or> length b = 0 then fconst ar 0
      else (case foldl (cosineStep ar a b) (fconst ar 0, fconst ar 0, fconst ar 0) [0..<length a] of
              (dotProduct, sumA, sumB) \<Rightarrow>
                (let normA = fsqrt ar sumA; normB = fsqrt ar sumB
                 in if \<not> jsFalsy ar normA \<and> \<not> jsFalsy ar normB
                    then fdiv ar dotProduct (fmul ar normA normB) else fconst ar 0)))"

text \<open>
  The words of the specification, in the arithmetic of the engine: the dot product is the
  sum of the products of the components, and the Euclidean norm the square root of the sum
  of the squares, each sum taken from 0 in the order of the components.
\<close>

definition dotProduct_spec :: "'f arith \<Rightarrow> 'f list \<Rightarrow> 'f list \<Rightarrow> 'f" where
  "dotProduct_spec ar a b = foldl (fadd ar) (fconst ar 0) (map2 (fmul ar) a b)"

definition euclideanNorm_spec :: "'f arith \<Rightarrow> 'f list \<Rightarrow> 'f" where
  "euclideanNorm_spec ar a = fsqrt ar (foldl (fadd ar) (fconst ar 0) (map (\<lambda>x. fmul ar x x) a))"

section \<open>Product search with semantic re-ranking\<close>

text \<open>
  A product of the commerce platform: \<open>name\<close> and \<open>description\<close> may be absent, and
  \<open>rest\<close> stands for the other fields requested (code, price, stock, images). The
  platform's fields carry no \<open>similarityScore\<close>.
\<close>

record 'x product =
  name :: "string option"
  description :: "string option"
  rest :: 'x

text \<open>What \<open>axios.get\<close> on the search URL gives: a rejection, or a body whose \<open>products\<close>
  field may be absent.\<close>

datatype 'x searchResponse = HttpError | HttpOk "'x product list option"

text \<open>What \<open>client.models.embedContent\<close> gives: a rejection, or a response whose
  \<open>embedding?.values\<close> may be absent.\<close>

datatype 'f embedReply = EmbedError | EmbedOk "'f embedding option"

text \<open>The string a search returns: a fixed text, or \<open>JSON.stringify\<close> of a product list.\<close>

datatype 'x sapResult = Text string | Stringified "'x product list"

text \<open>Truthiness of a possibly absent string: present and not empty.\<close>

definition truthy :: "string option \<Rightarrow> bool" where
  "truthy s = (case s of None \<Rightarrow> False | Some v \<Rightarrow> v \<noteq> [])"

text \<open>A possibly absent string inside a template literal.\<close>

definition templ :: "string option \<Rightarrow> string" where
  "templ s = (case s of None \<Rightarrow> ''undefined'' | Some v \<Rightarrow> v)"

text \<open>
  \<open>stripHtml\<close>: the guard \<open>if (!html) return ''\<close>, then the chain of \<open>replace\<close> calls and
  \<open>trim\<close>, which is the parameter \<open>replaceChain\<close>: the properties below hold for every
  such function.
\<close>

definition stripHtml :: "(string \<Rightarrow> string) \<Rightarrow> string option \<Rightarrow> string" where
  "stripHtml replaceChain html = (if \<not> truthy html then [] else replaceChain (templ html))"

definition cleanProduct :: "(string \<Rightarrow> string) \<Rightarrow> 'x product \<Rightarrow> 'x product" where
  "cleanProduct replaceChain p =
     p\<lparr>name := Some (stripHtml replaceChain (name p)),
       description := Some (if truthy (description p) then stripHtml replaceChain (description p) else [])\<rparr>"

definition getEmbedding :: "(string \<Rightarrow> 'f embedReply) \<Rightarrow> string \<Rightarrow> 'f cache \<Rightarrow> 'f embedding \<times> 'f cache" where
  "getEmbedding embedContent text embeddingCache =
     (case getCachedEmbedding text embeddingCache of
        Some cached \<Rightarrow> (cached, embeddingCache)
      | None \<Rightarrow>
          (case embedContent text of
             EmbedError \<Rightarrow> ([], embeddingCache)
           | EmbedOk values \<Rightarrow>
               (let embedding = (case values of None \<Rightarrow> [] | Some v \<Rightarrow> v)
                in (embedding,
                    if length embedding > 0 then setCachedEmbedding text embedding embeddingCache
                    else embeddingCache))))"

definition productText :: "'x product \<Rightarrow> string" where
  "productText p = templ (name p) @ '' '' @ templ (description p)"

text \<open>
  \<open>Promise.all\<close> over \<open>cleanedProducts.map(async ...)\<close>: every callback runs up to its first
  suspension before any of them resumes, so all candidates look the cache up as the query's
  embedding left it (\<open>seen\<close>), and those that missed write to it when their reply arrives.
  Call \<open>0\<close> of \<open>embedContent\<close> is the query's, call \<open>i + 1\<close> that of candidate \<open>i\<close>.
\<close>

definition productEmbeddings :: "(nat \<Rightarrow> string \<Rightarrow> 'f embedReply) \<Rightarrow> 'f cache \<Rightarrow> 'x product list \<Rightarrow> 'f embedding list" where
  "productEmbeddings embedContent seen cleanedProducts =
     map (\<lambda>(i, p). fst (getEmbedding (embedContent (Suc i)) (productText p) seen))
       (enumerate 0 cleanedProducts)"

text \<open>The writes of the candidates that missed, here in the order of the candidates; the
  order in which the replies arrive decides the order in the program.\<close>

definition cacheWrite :: "(string \<Rightarrow> 'f embedReply) \<Rightarrow> 'f cache \<Rightarrow> string \<Rightarrow> 'f cache \<Rightarrow> 'f cache" where
  "cacheWrite embedContent seen text embeddingCache =
     (case getCachedEmbedding text seen of
        Some cached \<Rightarrow> embeddingCache
      | None \<Rightarrow>
          (let embedding = fst (getEmbedding embedContent text seen)
           in if length embedding > 0 then setCachedEmbedding text embedding embeddingCache
              else embeddingCache))"

definition productCacheWrites :: "(nat \<Rightarrow> string \<Rightarrow> 'f embedReply) \<Rightarrow> 'f cache \<Rightarrow> 'x product list \<Rightarrow> 'f cache" where
  "productCacheWrites embedContent seen cleanedProducts =
     foldl (\<lambda>c (i, p). cacheWrite (embedContent (Suc i)) seen (productText p) c) seen
       (enumerate 0 cleanedProducts)"

text \<open>
  \<open>Array.prototype.sort\<close> with a comparator: a stable sort, in which an element goes before
  another when the comparator's result for the two is below 0, a result of NaN counting
  as 0. For a comparator that orders the elements of the array consistently, every stable
  sort returns the same array, and the model is insertion sort; for any other comparator
  ECMAScript leaves the order to the engine.
\<close>

definition sortsBefore :: "'f arith \<Rightarrow> 'f \<Rightarrow> bool" where
  "sortsBefore ar v = (\<not> isNaN ar v \<and> fless ar v (fconst ar 0))"

fun insertSorted :: "'f arith \<Rightarrow> ('a \<Rightarrow> 'a \<Rightarrow> 'f) \<Rightarrow> 'a \<Rightarrow> 'a list \<Rightarrow> 'a list" where
  "insertSorted ar comparefn x [] = [x]"
| "insertSorted ar comparefn x (y # ys) =
     (if sortsBefore ar (comparefn x y) then x # y # ys else y # insertSorted ar comparefn x ys)"

definition arraySort :: "'f arith \<Rightarrow> ('a \<Rightarrow> 'a \<Rightarrow> 'f) \<Rightarrow> 'a list \<Rightarrow> 'a list" where
  "arraySort ar comparefn xs = foldl (\<lambda>acc x. insertSorted ar comparefn x acc) [] xs"

text \<open>A candidate with its \<open>similarityScore\<close>.\<close>

type_synonym ('x, 'f) scored = "'x product \<times> 'f"

definition productsWithScores ::
  "'f arith \<Rightarrow> (nat \<Rightarrow> string \<Rightarrow> 'f embedReply) \<Rightarrow> 'f embedding \<Rightarrow> 'f cache \<Rightarrow> 'x product list
     \<Rightarrow> ('x, 'f) scored list" where
  "productsWithScores ar embedContent queryEmbedding seen cleanedProducts =
     map2 (\<lambda>p productEmbedding. (p, cosineSimilarity ar queryEmbedding productEmbedding))
       cleanedProducts (productEmbeddings embedContent seen cleanedProducts)"

definition rankedProducts :: "'f arith \<Rightarrow> ('x, 'f) scored list \<Rightarrow> 'x product list" where
  "rankedProducts ar scoredProducts =
     map fst (take 3 (arraySort ar (\<lambda>a b. fsub ar (snd b) (snd a)) scoredProducts))"

text \<open>The outcome of a search: the string returned, the cache afterwards, and the texts
  handed to \<open>getEmbedding\<close>.\<close>

record ('x, 'f) searchOutcome =
  returned :: "'x sapResult"
  cacheAfter :: "'f cache"
  embedded :: "string list"

text \<open>
  \<open>searchSAPProducts\<close> of server.js. \<open>response\<close> is the outcome of the one \<open>axios.get\<close>
  on the search URL. On platform data of the shape above, the rejection of that call is
  the only exception raised inside the \<open>try\<close> block (\<open>getEmbedding\<close> catches its own), and
  the \<open>catch\<close> turns it into the error text.
\<close>

definition searchSAPProducts ::
  "'f arith \<Rightarrow> (string \<Rightarrow> string) \<Rightarrow> 'x searchResponse \<Rightarrow> (nat \<Rightarrow> string \<Rightarrow> 'f embedReply)
     \<Rightarrow> string \<Rightarrow> 'f cache \<Rightarrow> ('x, 'f) searchOutcome" where
  "searchSAPProducts ar replaceChain response embedContent query embeddingCache =
     (case response of
        HttpError \<Rightarrow>
          \<lparr>returned = Text ''Error connecting to SAP Commerce Cloud.'',
           cacheAfter = embeddingCache, embedded = []\<rparr>
      | HttpOk None \<Rightarrow>
          \<lparr>returned = Text ''No products found.'', cacheAfter = embeddingCache, embedded = []\<rparr>
      | HttpOk (Some products) \<Rightarrow>
          if length products = 0
          then \<lparr>returned = Text ''No products found.'', cacheAfter = embeddingCache, embedded = []\<rparr>
          else
            (let cleanedProducts = map (cleanProduct replaceChain) products
             in if length cleanedProducts \<le> 2
                then \<lparr>returned = Stringified cleanedProducts,
                      cacheAfter = embeddingCache, embedded = []\<rparr>
                else
                  (case getEmbedding (embedContent 0) query embeddingCache of
                     (queryEmbedding, seen) \<Rightarrow>
                       if length queryEmbedding = 0
                       then \<lparr>returned = Stringified (take 3 cleanedProducts),
                             cacheAfter = seen, embedded = [query]\<rparr>
                       else
                         \<lparr>returned = Stringified (rankedProducts ar
                              (productsWithScores ar embedContent queryEmbedding seen cleanedProducts)),
                          cacheAfter = productCacheWrites embedContent seen cleanedProducts,
                          embedded = query # map productText cleanedProducts\<rparr>)))"

text \<open>
  The local \<open>cleanedProducts\<close> of that function: assigned when the call succeeded and the
  body holds a product list that is not empty, and not otherwise.
\<close>

definition cleanedProductsOf :: "(string \<Rightarrow> string) \<Rightarrow> 'x searchResponse \<Rightarrow> 'x product list option" where
  "cleanedProductsOf replaceChain response =
     (case response of
        HttpError \<Rightarrow> None
      | HttpOk None \<Rightarrow> None
      | HttpOk (Some products) \<Rightarrow>
          if length products = 0 then None else Some (map (cleanProduct replaceChain) products))"

text \<open>The \<open>searchSAPProducts\<close> of the command-line agent (src/unnamed/part_000).\<close>

definition searchSAPProducts_part_000 :: "'x searchResponse \<Rightarrow> 'x sapResult" where
  "searchSAPProducts_part_000 response =
     (case response of
        HttpError \<Rightarrow> Text ''Error connecting to SAP Commerce Cloud.''
      | HttpOk None \<Rightarrow> Text ''No products found.''
      | HttpOk (Some products) \<Rightarrow> Stringified products)"

section \<open>Requests to the commerce platform\<close>

datatype verb = GET | POST | DELETE | PATCH

text \<open>The JSON body of a request, where there is one.\<close>

datatype 'f payload =
    NoBody
  | EmptyObject
  | EntryPayload "string option" "'f option"
  | QuantityPayload "'f option"

text \<open>A request: HTTP verb, URL, query parameters and body.\<close>

datatype 'f request = Request verb string "(string \<times> string) list" "'f payload"

fun requestVerb :: "'f request \<Rightarrow> verb" where
  "requestVerb (Request m u ps b) = m"

fun requestUrl :: "'f request \<Rightarrow> string" where
  "requestUrl (Request m u ps b) = u"

record 'f review =
  rating :: "'f option"
  comment :: "string option"

text \<open>An entry of a cart as the platform sends it; \<open>entryProduct\<close> holds the code and the
  name of the product.\<close>

record 'f entry =
  entryNumber :: "nat option"
  entryProduct :: "(string option \<times> string option) option"
  basePriceValue :: "'f option"
  quantity :: "'f option"
  entryTotalPrice :: "string option"

text \<open>
  The \<open>data\<close> of a platform response, with the fields that the server reads; a field that
  the response does not have is \<open>None\<close>.
\<close>

record ('x, 'f) occData =
  products :: "'x product list option"
  reviews :: "'f review list option"
  guid :: "string option"
  entries :: "'f entry list option"
  subTotalValue :: "'f option"
  subTotalFormatted :: "string option"
  totalTaxFormatted :: "string option"
  totalPriceFormatted :: "string option"
  totalItems :: "nat option"

text \<open>The platform as the server sees it while it handles one request: a rejected call is
  \<open>None\<close>.\<close>

type_synonym ('x, 'f) platform = "'f request \<Rightarrow> ('x, 'f) occData option"

definition occUrl :: "string \<Rightarrow> string \<Rightarrow> string \<Rightarrow> string" where
  "occUrl base site path = base @ ''/'' @ site @ path"

definition LANG_CURR :: "(string \<times> string) list" where
  "LANG_CURR = [(''lang'', ''en''), (''curr'', ''USD'')]"

definition SEARCH_FIELDS :: string where
  "SEARCH_FIELDS = ''products(name,price(formattedValue),code,stock(stockLevelStatus),images(FULL),description)''"

definition VIEW_FIELDS :: string where
  "VIEW_FIELDS = ''code,configurable,configuratorType,purchasable,name,summary,price(formattedValue,DEFAULT),images(galleryIndex,FULL),baseProduct,DEFAULT,averageRating,classifications,manufacturer,numberOfReviews,categories(FULL),baseOptions,variantOptions,variantType,stock(DEFAULT),description,availableForPickup,url,priceRange,multidimensional,tags,potentialPromotions(description),sapUnit''"

definition PRODUCT_FIELDS :: string where
  "PRODUCT_FIELDS = ''DEFAULT,images(FULL),price(FULL),stock(FULL),description,reviews,averageRating''"

definition CART_FIELDS :: string where
  "CART_FIELDS = ''DEFAULT,entries(totalPrice(formattedValue),product(images(FULL),stock(FULL),name),basePrice(formattedValue,value),quantity),totalPrice(formattedValue),totalItems,totalPriceWithTax(formattedValue),totalDiscounts(value,formattedValue),subTotal(formattedValue),totalUnitCount,deliveryItemsQuantity,deliveryCost(formattedValue),totalTax(formattedValue,value),pickupItemsQuantity,net,appliedVouchers,productDiscounts(formattedValue),user,appliedOrderPromotions,appliedProductPromotions,potentialOrderPromotions,potentialProductPromotions''"

definition searchRequest :: "string \<Rightarrow> string \<Rightarrow> string \<Rightarrow> 'f request" where
  "searchRequest base site query =
     Request GET (occUrl base site ''/products/search'')
       [(''query'', query), (''fields'', SEARCH_FIELDS), (''pageSize'', ''5'')] NoBody"

definition reviewsRequest :: "string \<Rightarrow> string \<Rightarrow> string \<Rightarrow> 'f request" where
  "reviewsRequest base site code =
     Request GET (occUrl base site (''/products/'' @ code @ ''/reviews'')) LANG_CURR NoBody"

definition viewRequest :: "string \<Rightarrow> string \<Rightarrow> string \<Rightarrow> 'f request" where
  "viewRequest base site code =
     Request GET (occUrl base site (''/products/'' @ code))
       ((''fields'', VIEW_FIELDS) # LANG_CURR) NoBody"

definition toSearchResponse :: "('x, 'f) occData option \<Rightarrow> 'x searchResponse" where
  "toSearchResponse r = (case r of None \<Rightarrow> HttpError | Some d \<Rightarrow> HttpOk (products d))"

section \<open>The agent\<close>

text \<open>
  \<open>String.prototype.match\<close> with \<^verbatim>\<open>/\[TAG: ([^\]]+)\]/\<close>, where \<open>opening\<close> is the literal
  text up to the group: at one position the pattern matches when the opening is there, at
  least one character other than \<open>]\<close> follows, and the run of such characters ends at a
  \<open>]\<close>; the group is that run. The match is the leftmost one.
\<close>

definition matchHere :: "string \<Rightarrow> string \<Rightarrow> string option" where
  "matchHere opening s =
     (if take (length opening) s = opening
      then (let after = drop (length opening) s;
                run = takeWhile (\<lambda>c. c \<noteq> CHR '']'') after
            in if run \<noteq> [] \<and> dropWhile (\<lambda>c. c \<noteq> CHR '']'') after \<noteq> [] then Some run else None)
      else None)"

fun matchTag :: "string \<Rightarrow> string \<Rightarrow> string option" where
  "matchTag opening [] = matchHere opening []"
| "matchTag opening (c # cs) =
     (case matchHere opening (c # cs) of Some g \<Rightarrow> Some g | None \<Rightarrow> matchTag opening cs)"

text \<open>\<open>String.prototype.trim\<close>, on the white space among the characters modelled.\<close>

definition isSpace :: "char \<Rightarrow> bool" where
  "isSpace c = (c \<in> set [CHR '' '', CHR 0x09, CHR 0x0A, CHR 0x0B, CHR 0x0C, CHR 0x0D, CHR 0xA0])"

definition trim :: "string \<Rightarrow> string" where
  "trim s = rev (dropWhile isSpace (rev (dropWhile isSpace s)))"

text \<open>
  \<open>reviews.length ? (reviews.reduce((s, r) => s + (r.rating || 0), 0) / reviews.length) : 0\<close>
  and \<open>Math.round(averageRating * 100) / 100\<close>.
\<close>

definition averageRating :: "'f arith \<Rightarrow> 'f review list \<Rightarrow> 'f" where
  "averageRating ar rs =
     (if length rs \<noteq> 0
      then fdiv ar (foldl (\<lambda>s r. fadd ar s (orZero ar (rating r))) (fconst ar 0) rs)
             (fconst ar (of_nat (length rs)))
      else fconst ar 0)"

definition roundedAverage :: "'f arith \<Rightarrow> 'f review list \<Rightarrow> 'f" where
  "roundedAverage ar rs =
     fdiv ar (fround ar (fmul ar (averageRating ar rs) (fconst ar 100))) (fconst ar 100)"

text \<open>What \<open>generateContent\<close> gives: a rejection or a response that cannot be read, with the
  error's message, or the text of the first part of the first candidate, which may be
  absent.\<close>

datatype llmReply = LlmError string | LlmText "string option"

text \<open>The objects that \<open>runAgent\<close> returns, one constructor for each \<open>return\<close>.\<close>

datatype ('x, 'f) agentResult =
    ReviewsFetched string "'f review list" nat 'f
  | ReviewsFailed string
  | ProductViewed string "('x, 'f) occData"
  | ProductViewFailed string
  | Searched string "'x product list"
  | Plain string
  | Failed string

text \<open>What the server depends on while it handles one request: the environment variables,
  the platform, the language model (call 0 is the first prompt, call 1 the refined one),
  the embedding service, the regular-expression chain of \<open>stripHtml\<close>, and the arithmetic
  of the engine.\<close>

record ('x, 'f) env =
  baseUrl :: string
  siteId :: string
  axios :: "('x, 'f) platform"
  generateContent :: "nat \<Rightarrow> string \<Rightarrow> llmReply"
  embedService :: "nat \<Rightarrow> string \<Rightarrow> 'f embedReply"
  stripChain :: "string \<Rightarrow> string"
  engine :: "'f arith"

definition systemPrompt :: string where
  "systemPrompt =
     ''You are a helpful SAP Commerce assistant. When users ask about products, extract the search query and start your response with [SEARCH: <query>] to trigger a product search. For example:''
     @ [CHR 0x0A] @ ''- User: '' @ [CHR 0x22] @ ''I need a camera'' @ [CHR 0x22]
     @ [CHR 0x0A] @ ''- You: '' @ [CHR 0x22]
     @ ''[SEARCH: camera] Let me find some cameras for you...'' @ [CHR 0x22] @ ''  ''
     @ [CHR 0x0A, CHR 0x0A]
     @ ''If the user asks something that doesn'' @ [CHR 0x27]
     @ ''t require a search, just respond normally without the [SEARCH] tag.''"

text \<open>\<open>candidates[0]?.content?.parts[0]?.text || "No response"\<close>.\<close>

definition textOr :: "string option \<Rightarrow> string" where
  "textOr t = (if truthy t then templ t else ''No response'')"

text \<open>\<open>JSON.parse\<close> of what a search returned: the two fixed texts are not JSON, and the
  parse throws a SyntaxError, whose message is the engine's; the model writes
  \<open>SyntaxError\<close> for it.\<close>

definition jsonParse :: "'x sapResult \<Rightarrow> 'x product list option" where
  "jsonParse r = (case r of Text t \<Rightarrow> None | Stringified ps \<Rightarrow> Some ps)"

definition sapResultText :: "('x product list \<Rightarrow> string) \<Rightarrow> 'x sapResult \<Rightarrow> string" where
  "sapResultText stringify r = (case r of Text t \<Rightarrow> t | Stringified ps \<Rightarrow> stringify ps)"

text \<open>The outcome of \<open>runAgent\<close>: the object returned, the requests sent to the platform in
  order, and the embedding cache afterwards.\<close>

record ('x, 'f) agentOutcome =
  result :: "('x, 'f) agentResult"
  requests :: "'f request list"
  cacheNow :: "'f cache"

text \<open>
  Step B of \<open>runAgent\<close>, from the assistant's text on. \<open>stringify\<close> is \<open>JSON.stringify\<close> on
  product lists, which only shapes the refined prompt.
\<close>

definition dispatch ::
  "('x, 'f) env \<Rightarrow> ('x product list \<Rightarrow> string) \<Rightarrow> string \<Rightarrow> string \<Rightarrow> 'f cache
     \<Rightarrow> ('x, 'f) agentOutcome" where
  "dispatch e stringify userInput assistantResponse embeddingCache =
     (case matchTag ''[REVIEWS: '' assistantResponse of
        Some g \<Rightarrow>
          (let code = trim g; req = reviewsRequest (baseUrl e) (siteId e) code
           in (case axios e req of
                 Some d \<Rightarrow>
                   (let rs = (case reviews d of None \<Rightarrow> [] | Some v \<Rightarrow> v)
                    in \<lparr>result = ReviewsFetched assistantResponse rs (length rs)
                                   (roundedAverage (engine e) rs),
                        requests = [req], cacheNow = embeddingCache\<rparr>)
               | None \<Rightarrow>
                   \<lparr>result = ReviewsFailed (assistantResponse @ [CHR 0x0A, CHR 0x0A] @ ''(Unable to fetch reviews)''),
                    requests = [req], cacheNow = embeddingCache\<rparr>))
      | None \<Rightarrow>
          (case matchTag ''[VIEW: '' assistantResponse of
             Some g \<Rightarrow>
               (let code = trim g; req = viewRequest (baseUrl e) (siteId e) code
                in (case axios e req of
                      Some d \<Rightarrow>
                        \<lparr>result = ProductViewed assistantResponse d,
                         requests = [req], cacheNow = embeddingCache\<rparr>
                    | None \<Rightarrow>
                        \<lparr>result = ProductViewFailed
                           (assistantResponse @ [CHR 0x0A, CHR 0x0A] @ ''(Unable to fetch product details)''),
                         requests = [req], cacheNow = embeddingCache\<rparr>))
           | None \<Rightarrow>
               (case matchTag ''[SEARCH: '' assistantResponse of
                  Some query \<Rightarrow>
                    (let req = searchRequest (baseUrl e) (siteId e) query;
                         found = searchSAPProducts (engine e) (stripChain e)
                                   (toSearchResponse (axios e req)) (embedService e) query
                                   embeddingCache;
                         sapResults = returned found;
                         refinedPrompt = systemPrompt @ [CHR 0x0A, CHR 0x0A] @ ''User: '' @ userInput
                           @ [CHR 0x0A, CHR 0x0A] @ ''SAP Products Found:'' @ [CHR 0x0A]
                           @ sapResultText stringify sapResults @ [CHR 0x0A, CHR 0x0A]
                           @ ''Based on these products, provide a helpful response to the user:''
                     in (case generateContent e 1 refinedPrompt of
                           LlmError message \<Rightarrow>
                             \<lparr>result = Failed (''Error: '' @ message),
                              requests = [req], cacheNow = cacheAfter found\<rparr>
                         | LlmText refined \<Rightarrow>
                             (case jsonParse sapResults of
                                None \<Rightarrow>
                                  \<lparr>result = Failed (''Error: '' @ ''SyntaxError''),
                                   requests = [req], cacheNow = cacheAfter found\<rparr>
                              | Some ps \<Rightarrow>
                                  \<lparr>result = Searched (textOr refined) ps,
                                   requests = [req], cacheNow = cacheAfter found\<rparr>)))
                | None \<Rightarrow>
                    \<lparr>result = Plain assistantResponse, requests = [], cacheNow = embeddingCache\<rparr>)))"

definition runAgent ::
  "('x, 'f) env \<Rightarrow> ('x product list \<Rightarrow> string) \<Rightarrow> string \<Rightarrow> 'f cache \<Rightarrow> ('x, 'f) agentOutcome" where
  "runAgent e stringify userInput embeddingCache =
     (let fullPrompt = systemPrompt @ [CHR 0x0A, CHR 0x0A] @ ''User: '' @ userInput
            @ [CHR 0x0A, CHR 0x0A] @ ''Assistant:''
      in (case generateContent e 0 fullPrompt of
            LlmError message \<Rightarrow>
              \<lparr>result = Failed (''Error: '' @ message), requests = [], cacheNow = embeddingCache\<rparr>
          | LlmText t \<Rightarrow> dispatch e stringify userInput (textOr t) embeddingCache))"

section \<open>Sessions and the cart endpoints\<close>

text \<open>What the server keeps in \<open>req.session\<close>.\<close>

record session =
  userId :: "string option"
  email :: "string option"
  cartGuid :: "string option"

definition emptySession :: session where
  "emptySession = \<lparr>userId = None, email = None, cartGuid = None\<rparr>"

text \<open>A cart as the cart endpoints send it to the front end.\<close>

record 'f item =
  itemId :: "nat option"
  productCode :: "string option"
  productName :: "string option"
  price :: 'f
  itemQuantity :: "'f option"
  itemTotalPrice :: "string option"

record 'f cartView =
  viewGuid :: "string option"
  viewItems :: "'f item list"
  viewTotal :: 'f
  viewSubtotal :: "string option"
  viewTax :: "string option"
  viewTotalPrice :: "string option"
  viewTotalItems :: "nat option"

text \<open>
  Reading \<open>entry.product.code\<close> throws a TypeError when the entry has no product.
  \<open>parseFloat\<close> of a number that is truthy is that number.
\<close>

definition formatItem :: "'f arith \<Rightarrow> 'f entry \<Rightarrow> 'f item option" where
  "formatItem ar en =
     (case entryProduct en of
        None \<Rightarrow> None
      | Some (code, nm) \<Rightarrow>
          Some \<lparr>itemId = entryNumber en, productCode = code, productName = nm,
                price = orZero ar (basePriceValue en), itemQuantity = quantity en,
                itemTotalPrice = entryTotalPrice en\<rparr>)"

definition formatCart :: "'f arith \<Rightarrow> string option \<Rightarrow> ('x, 'f) occData \<Rightarrow> 'f cartView option" where
  "formatCart ar g d =
     (case those (map (formatItem ar) (case entries d of None \<Rightarrow> [] | Some es \<Rightarrow> es)) of
        None \<Rightarrow> None
      | Some its \<Rightarrow>
          Some \<lparr>viewGuid = g, viewItems = its, viewTotal = orZero ar (subTotalValue d),
                viewSubtotal = subTotalFormatted d, viewTax = totalTaxFormatted d,
                viewTotalPrice = totalPriceFormatted d, viewTotalItems = totalItems d\<rparr>)"

record user =
  userIdOf :: string
  userEmail :: string
  userPassword :: string
  userFirstName :: string
  userLastName :: string

text \<open>An entry of the \<open>carts\<close> map; the code reads its \<open>items\<close> and its \<open>total\<close>.\<close>

record 'f cart =
  cartItems :: "string list"
  cartTotal :: 'f

record 'f order =
  orderId :: string
  orderUserId :: string
  orderUserEmail :: string
  orderUserName :: string
  orderItems :: "string list"
  orderSubtotal :: 'f
  orderTax :: 'f
  orderShipping :: 'f
  orderTotal :: 'f
  shippingAddress :: string
  billingAddress :: string
  paymentMethod :: "string option"
  orderStatus :: string

text \<open>The JSON bodies that the endpoints send, one constructor for each shape; the \<open>details\<close>
  of an error response and the dates are left out.\<close>

datatype ('x, 'f) body =
    Error string
  | Registered string string "string option" "string option"
  | LoggedIn string string string string
  | LoggedOut
  | Me string string string string
  | Data "('x, 'f) occData"
  | Reviews "'f review list" nat 'f
  | EmptyCart
  | Cart "'f cartView"
  | CartChanged string "'f cartView"
  | Agent "('x, 'f) agentResult"
  | OrderCreated string "'f order"
  | OrderFound "'f order"
  | Orders "'f order list" nat

text \<open>What handling a cart request comes to: the response, the session afterwards, and the
  requests sent to the platform in order.\<close>

record ('x, 'f) handled =
  status :: nat
  body :: "('x, 'f) body"
  sessionAfter :: session
  sent :: "'f request list"

definition cartsUrl :: "string \<Rightarrow> string \<Rightarrow> string" where
  "cartsUrl base site = occUrl base site ''/users/anonymous/carts''"

definition cartUrl :: "string \<Rightarrow> string \<Rightarrow> string \<Rightarrow> string" where
  "cartUrl base site g = occUrl base site (''/users/anonymous/carts/'' @ g)"

definition CART_PARAMS :: "(string \<times> string) list" where
  "CART_PARAMS = (''fields'', CART_FIELDS) # LANG_CURR"

text \<open>The block \<open>Fetch updated cart\<close> and the success response, which the add, remove and
  update endpoints repeat; \<open>failure\<close> is the error text of the endpoint's \<open>catch\<close>.\<close>

definition fetchUpdatedCart ::
  "('x, 'f) env \<Rightarrow> session \<Rightarrow> string \<Rightarrow> string \<Rightarrow> 'f request list \<Rightarrow> ('x, 'f) handled" where
  "fetchUpdatedCart e sess message failure before =
     (let req = Request GET (cartUrl (baseUrl e) (siteId e) (templ (cartGuid sess))) CART_PARAMS NoBody
      in (case axios e req of
            None \<Rightarrow>
              \<lparr>status = 500, body = Error failure, sessionAfter = sess, sent = before @ [req]\<rparr>
          | Some d \<Rightarrow>
              (case formatCart (engine e) (cartGuid sess) d of
                 None \<Rightarrow>
                   \<lparr>status = 500, body = Error failure, sessionAfter = sess, sent = before @ [req]\<rparr>
               | Some v \<Rightarrow>
                   \<lparr>status = 200, body = CartChanged message v, sessionAfter = sess,
                    sent = before @ [req]\<rparr>)))"

text \<open>\<open>GET /api/cart\<close>.\<close>

definition cartGet :: "('x, 'f) env \<Rightarrow> session \<Rightarrow> ('x, 'f) handled" where
  "cartGet e sess =
     (if \<not> truthy (cartGuid sess)
      then \<lparr>status = 200, body = EmptyCart, sessionAfter = sess, sent = []\<rparr>
      else
        (let req = Request GET (cartUrl (baseUrl e) (siteId e) (templ (cartGuid sess))) CART_PARAMS NoBody
         in (case axios e req of
               None \<Rightarrow> \<lparr>status = 200, body = EmptyCart, sessionAfter = sess, sent = [req]\<rparr>
             | Some d \<Rightarrow>
                 (case formatCart (engine e) (cartGuid sess) d of
                    None \<Rightarrow> \<lparr>status = 200, body = EmptyCart, sessionAfter = sess, sent = [req]\<rparr>
                  | Some v \<Rightarrow> \<lparr>status = 200, body = Cart v, sessionAfter = sess, sent = [req]\<rparr>))))"

text \<open>\<open>POST /api/cart/add\<close>, from \<open>Add entry to cart\<close> on.\<close>

definition addEntry ::
  "('x, 'f) env \<Rightarrow> session \<Rightarrow> string option \<Rightarrow> 'f option \<Rightarrow> 'f request list \<Rightarrow> ('x, 'f) handled" where
  "addEntry e sess code qty before =
     (let req = Request POST
                  (cartUrl (baseUrl e) (siteId e) (templ (cartGuid sess)) @ ''/entries'')
                  LANG_CURR (EntryPayload code qty)
      in (case axios e req of
            None \<Rightarrow>
              \<lparr>status = 500, body = Error ''Failed to add item to cart'', sessionAfter = sess,
               sent = before @ [req]\<rparr>
          | Some d \<Rightarrow>
              fetchUpdatedCart e sess ''Item added to cart'' ''Failed to add item to cart''
                (before @ [req])))"

text \<open>\<open>POST /api/cart/add\<close>.\<close>

definition cartAdd :: "('x, 'f) env \<Rightarrow> session \<Rightarrow> string option \<Rightarrow> 'f option \<Rightarrow> ('x, 'f) handled" where
  "cartAdd e sess code qty =
     (if \<not> truthy code \<or> \<not> jsTruthy (engine e) qty
      then \<lparr>status = 400, body = Error ''Product code and quantity required'',
            sessionAfter = sess, sent = []\<rparr>
      else if \<not> truthy (cartGuid sess)
      then
        (let createCart = Request POST (cartsUrl (baseUrl e) (siteId e)) CART_PARAMS EmptyObject
         in (case axios e createCart of
               None \<Rightarrow>
                 \<lparr>status = 500, body = Error ''Failed to add item to cart'', sessionAfter = sess,
                  sent = [createCart]\<rparr>
             | Some d \<Rightarrow> addEntry e (sess\<lparr>cartGuid := guid d\<rparr>) code qty [createCart]))
      else addEntry e sess code qty [])"

text \<open>\<open>POST /api/cart/remove\<close>.\<close>

definition cartRemove :: "('x, 'f) env \<Rightarrow> session \<Rightarrow> string option \<Rightarrow> ('x, 'f) handled" where
  "cartRemove e sess entryId =
     (if \<not> truthy (cartGuid sess)
      then \<lparr>status = 400, body = Error ''No cart found'', sessionAfter = sess, sent = []\<rparr>
      else
        (let req = Request DELETE
                     (cartUrl (baseUrl e) (siteId e) (templ (cartGuid sess)) @ ''/entries/'' @ templ entryId)
                     LANG_CURR NoBody
         in (case axios e req of
               None \<Rightarrow>
                 \<lparr>status = 500, body = Error ''Failed to remove item from cart'', sessionAfter = sess,
                  sent = [req]\<rparr>
             | Some d \<Rightarrow>
                 fetchUpdatedCart e sess ''Item removed from cart'' ''Failed to remove item from cart''
                   [req])))"

text \<open>\<open>POST /api/cart/update\<close>.\<close>

definition cartUpdate :: "('x, 'f) env \<Rightarrow> session \<Rightarrow> string option \<Rightarrow> 'f option \<Rightarrow> ('x, 'f) handled" where
  "cartUpdate e sess entryId qty =
     (if \<not> truthy (cartGuid sess)
      then \<lparr>status = 400, body = Error ''No cart found'', sessionAfter = sess, sent = []\<rparr>
      else
        (let req = Request PATCH
                     (cartUrl (baseUrl e) (siteId e) (templ (cartGuid sess)) @ ''/entries/'' @ templ entryId)
                     LANG_CURR (QuantityPayload qty)
         in (case axios e req of
               None \<Rightarrow>
                 \<lparr>status = 500, body = Error ''Failed to update cart'', sessionAfter = sess,
                  sent = [req]\<rparr>
             | Some d \<Rightarrow>
                 fetchUpdatedCart e sess ''Cart updated'' ''Failed to update cart'' [req])))"

text \<open>The cart requests of one session, each handled against the platform as it is then.\<close>

datatype 'f cartRequest =
    GetCart
  | AddToCart "string option" "'f option"
  | RemoveFromCart "string option"
  | UpdateCart "string option" "'f option"

fun cartHandler :: "('x, 'f) env \<Rightarrow> session \<Rightarrow> 'f cartRequest \<Rightarrow> ('x, 'f) handled" where
  "cartHandler e sess GetCart = cartGet e sess"
| "cartHandler e sess (AddToCart code qty) = cartAdd e sess code qty"
| "cartHandler e sess (RemoveFromCart entryId) = cartRemove e sess entryId"
| "cartHandler e sess (UpdateCart entryId qty) = cartUpdate e sess entryId qty"

text \<open>All requests sent to the platform by a run of cart requests, and the session at its end.\<close>

fun cartRun :: "session \<Rightarrow> (('x, 'f) env \<times> 'f cartRequest) list \<Rightarrow> 'f request list \<times> session" where
  "cartRun sess [] = ([], sess)"
| "cartRun sess ((e, r) # evs) =
     (let h = cartHandler e sess r; (later, final) = cartRun (sessionAfter h) evs
      in (sent h @ later, final))"

section \<open>The server and its in-memory stores\<close>

text \<open>
  The state of the process: the three in-memory maps, the order counter, the session of
  each session id (a session that does not exist yet, or was destroyed, is the empty one),
  and the embedding cache.
\<close>

record 'f server =
  users :: "(string \<times> user) list"
  carts :: "(string \<times> 'f cart) list"
  orders :: "(string \<times> 'f order) list"
  orderCounter :: int
  sessions :: "string \<Rightarrow> session"
  serverCache :: "'f cache"

definition initialServer :: "'f server" where
  "initialServer =
     \<lparr>users = [], carts = [], orders = [], orderCounter = 1000,
      sessions = (\<lambda>sid. emptySession), serverCache = []\<rparr>"

text \<open>The requests that the routes of server.js answer, with the fields read from the body
  or the path. The last argument of \<open>Register\<close> is the UUID that \<open>crypto.randomUUID\<close>
  draws.\<close>

datatype 'f apiRequest =
    Register "string option" "string option" "string option" "string option" string
  | Login "string option" "string option"
  | Logout
  | WhoAmI
  | GetProduct string
  | GetProductReviews string
  | CartRequest "'f cartRequest"
  | Search "string option"
  | CreateOrder "string option" "string option" "string option"
  | GetOrder string
  | ListOrders

definition productRequest :: "string \<Rightarrow> string \<Rightarrow> string \<Rightarrow> 'f request" where
  "productRequest base site code =
     Request GET (occUrl base site (''/products/'' @ code)) [(''fields'', PRODUCT_FIELDS)] NoBody"

definition setSession :: "string \<Rightarrow> session \<Rightarrow> 'f server \<Rightarrow> 'f server" where
  "setSession sid sess srv = srv\<lparr>sessions := (sessions srv)(sid := sess)\<rparr>"

text \<open>\<open>Array.from(users.values()).find(u => u.id === req.session.userId)\<close>.\<close>

definition findUser :: "string \<Rightarrow> 'f server \<Rightarrow> user option" where
  "findUser uid srv = find (\<lambda>u. userIdOf u = uid) (map snd (users srv))"

text \<open>\<open>POST /api/auth/register\<close>.\<close>

definition register ::
  "'f server \<Rightarrow> string \<Rightarrow> string option \<Rightarrow> string option \<Rightarrow> string option \<Rightarrow> string option \<Rightarrow> string
     \<Rightarrow> (nat \<times> ('x, 'f) body) \<times> 'f server" where
  "register srv sid em pw firstName lastName uuid =
     (if \<not> truthy em \<or> \<not> truthy pw
      then ((400, Error ''Email and password required''), srv)
      else if mapHas (templ em) (users srv)
      then ((409, Error ''User already exists''), srv)
      else
        (let u = \<lparr>userIdOf = uuid, userEmail = templ em, userPassword = templ pw,
                  userFirstName = (if truthy firstName then templ firstName else []),
                  userLastName = (if truthy lastName then templ lastName else [])\<rparr>
         in ((200, Registered uuid (templ em) firstName lastName),
             setSession sid ((sessions srv sid)\<lparr>userId := Some uuid, email := em\<rparr>)
               (srv\<lparr>users := mapSet (templ em) u (users srv)\<rparr>))))"

text \<open>\<open>POST /api/auth/login\<close>.\<close>

definition login ::
  "'f server \<Rightarrow> string \<Rightarrow> string option \<Rightarrow> string option \<Rightarrow> (nat \<times> ('x, 'f) body) \<times> 'f server" where
  "login srv sid em pw =
     (if \<not> truthy em \<or> \<not> truthy pw
      then ((400, Error ''Email and password required''), srv)
      else
        (case mapGet (templ em) (users srv) of
           None \<Rightarrow> ((401, Error ''Invalid credentials''), srv)
         | Some u \<Rightarrow>
             if userPassword u \<noteq> templ pw
             then ((401, Error ''Invalid credentials''), srv)
             else ((200, LoggedIn (userIdOf u) (userEmail u) (userFirstName u) (userLastName u)),
                   setSession sid ((sessions srv sid)\<lparr>userId := Some (userIdOf u), email := em\<rparr>) srv)))"

text \<open>\<open>GET /api/auth/me\<close>.\<close>

definition whoAmI :: "'f server \<Rightarrow> string \<Rightarrow> (nat \<times> ('x, 'f) body) \<times> 'f server" where
  "whoAmI srv sid =
     (if \<not> truthy (userId (sessions srv sid))
      then ((401, Error ''Not authenticated''), srv)
      else
        (case findUser (templ (userId (sessions srv sid))) srv of
           None \<Rightarrow> ((404, Error ''User not found''), srv)
         | Some u \<Rightarrow>
             ((200, Me (userIdOf u) (userEmail u) (userFirstName u) (userLastName u)), srv)))"

text \<open>
  \<open>POST /api/orders/create\<close>, behind \<open>requireAuth\<close>. The counter is incremented before the
  user is looked up; reading \<open>user.email\<close> of a user that is not there throws, and Express
  answers 500.
\<close>

definition createOrder ::
  "'f arith \<Rightarrow> 'f server \<Rightarrow> string \<Rightarrow> string option \<Rightarrow> string option \<Rightarrow> string option
     \<Rightarrow> (nat \<times> ('x, 'f) body) \<times> 'f server" where
  "createOrder ar srv sid shipping billing payment =
     (if \<not> truthy (userId (sessions srv sid))
      then ((401, Error ''Authentication required''), srv)
      else
        (let uid = templ (userId (sessions srv sid))
         in (case mapGet uid (carts srv) of
               None \<Rightarrow> ((400, Error ''Cart is empty''), srv)
             | Some c \<Rightarrow>
                 if length (cartItems c) = 0
                 then ((400, Error ''Cart is empty''), srv)
                 else if \<not> truthy shipping \<or> \<not> truthy billing
                 then ((400, Error ''Shipping and billing addresses required''), srv)
                 else
                   (let counter = orderCounter srv + 1;
                        oid = ''ORD-'' @ toString counter
                    in (case findUser uid srv of
                          None \<Rightarrow> ((500, Error ''TypeError''), srv\<lparr>orderCounter := counter\<rparr>)
                        | Some u \<Rightarrow>
                            (let tax = fdiv ar
                                         (fround ar
                                            (fmul ar (fmul ar (cartTotal c) (fconst ar (8 / 100)))
                                               (fconst ar 100)))
                                         (fconst ar 100);
                                 shippingCost = (if fless ar (fconst ar 100) (cartTotal c)
                                                 then fconst ar 0 else fconst ar 10);
                                 ord = \<lparr>orderId = oid, orderUserId = uid,
                                        orderUserEmail = userEmail u,
                                        orderUserName = userFirstName u @ '' '' @ userLastName u,
                                        orderItems = cartItems c, orderSubtotal = cartTotal c,
                                        orderTax = tax, orderShipping = shippingCost,
                                        orderTotal = fadd ar (fadd ar (cartTotal c) tax) shippingCost,
                                        shippingAddress = templ shipping,
                                        billingAddress = templ billing,
                                        paymentMethod = payment, orderStatus = ''PENDING''\<rparr>
                             in ((200, OrderCreated oid ord),
                                 srv\<lparr>orderCounter := counter,
                                     orders := mapSet oid ord (orders srv),
                                     carts := mapDelete uid (carts srv)\<rparr>)))))))"

text \<open>\<open>GET /api/orders/:orderId\<close> and \<open>GET /api/orders\<close>, behind \<open>requireAuth\<close>.\<close>

definition getOrder :: "'f server \<Rightarrow> string \<Rightarrow> string \<Rightarrow> (nat \<times> ('x, 'f) body) \<times> 'f server" where
  "getOrder srv sid oid =
     (if \<not> truthy (userId (sessions srv sid))
      then ((401, Error ''Authentication required''), srv)
      else
        (case mapGet oid (orders srv) of
           None \<Rightarrow> ((404, Error ''Order not found''), srv)
         | Some ord \<Rightarrow>
             if orderUserId ord \<noteq> templ (userId (sessions srv sid))
             then ((403, Error ''Unauthorized''), srv)
             else ((200, OrderFound ord), srv)))"

definition listOrders :: "'f server \<Rightarrow> string \<Rightarrow> (nat \<times> ('x, 'f) body) \<times> 'f server" where
  "listOrders srv sid =
     (if \<not> truthy (userId (sessions srv sid))
      then ((401, Error ''Authentication required''), srv)
      else
        (let userOrders = filter (\<lambda>ord. orderUserId ord = templ (userId (sessions srv sid)))
                            (map snd (orders srv))
         in ((200, Orders userOrders (length userOrders)), srv)))"

text \<open>One request of the session \<open>sid\<close>, answered in the state \<open>srv\<close>: the status and body of
  the response, and the state afterwards.\<close>

definition handle ::
  "('x, 'f) env \<Rightarrow> ('x product list \<Rightarrow> string) \<Rightarrow> 'f server \<Rightarrow> string \<Rightarrow> 'f apiRequest
     \<Rightarrow> (nat \<times> ('x, 'f) body) \<times> 'f server" where
  "handle e stringify srv sid req =
     (case req of
        Register em pw firstName lastName uuid \<Rightarrow> register srv sid em pw firstName lastName uuid
      | Login em pw \<Rightarrow> login srv sid em pw
      | Logout \<Rightarrow> ((200, LoggedOut), setSession sid emptySession srv)
      | WhoAmI \<Rightarrow> whoAmI srv sid
      | GetProduct code \<Rightarrow>
          (case axios e (productRequest (baseUrl e) (siteId e) code) of
             None \<Rightarrow> ((500, Error ''Failed to fetch product details''), srv)
           | Some d \<Rightarrow> ((200, Data d), srv))
      | GetProductReviews code \<Rightarrow>
          (case axios e (reviewsRequest (baseUrl e) (siteId e) code) of
             None \<Rightarrow> ((500, Error ''Failed to fetch product reviews''), srv)
           | Some d \<Rightarrow>
               (let rs = (case reviews d of None \<Rightarrow> [] | Some v \<Rightarrow> v)
                in ((200, Reviews rs (length rs) (roundedAverage (engine e) rs)), srv)))
      | CartRequest r \<Rightarrow>
          (let h = cartHandler e (sessions srv sid) r
           in ((status h, body h), setSession sid (sessionAfter h) srv))
      | Search query \<Rightarrow>
          if \<not> truthy query \<or> trim (templ query) = []
          then ((400, Error ''Query is required''), srv)
          else
            (let out = runAgent e stringify (templ query) (serverCache srv)
             in ((200, Agent (result out)), srv\<lparr>serverCache := cacheNow out\<rparr>))
      | CreateOrder shipping billing payment \<Rightarrow>
          createOrder (engine e) srv sid shipping billing payment
      | GetOrder oid \<Rightarrow> getOrder srv sid oid
      | ListOrders \<Rightarrow> listOrders srv sid)"

text \<open>The state after a sequence of requests, each with its session id and with the
  environment as it is when the request is handled.\<close>

definition serve ::
  "('x product list \<Rightarrow> string) \<Rightarrow> 'f server \<Rightarrow> (('x, 'f) env \<times> string \<times> 'f apiRequest) list
     \<Rightarrow> 'f server" where
  "serve stringify srv evs =
     foldl (\<lambda>s (e, sid, req). snd (handle e stringify s sid req)) srv evs"

section \<open>Properties of the cache\<close>

lemma map_of_mapSet: "map_of (mapSet k v m) k = Some v"
  by (induction m) auto

lemma filter_mapSet_other:
  "filter (\<lambda>kv. fst kv \<noteq> k) (mapSet k v m) = filter (\<lambda>kv. fst kv \<noteq> k) m"
  by (induction m) auto

lemma map_of_mapSet_other: "k' \<noteq> k \<Longrightarrow> map_of (mapSet k v m) k' = map_of m k'"
  by (induction m) auto

lemma length_mapSet: "length (mapSet k v m) \<le> Suc (length m)"
  by (induction m) auto

lemma mapDelete_fresh: "k \<notin> fst ` set m \<Longrightarrow> mapDelete k m = m"
  by (induction m) (auto simp: mapDelete_def)

lemma mapDelete_hd: "mapDelete (fst kv) (kv # m) = mapDelete (fst kv) m"
  by (simp add: mapDelete_def)

lemma length_mapDelete_hd: "length (mapDelete (fst kv) (kv # m)) \<le> length m"
  by (simp add: mapDelete_def)

lemma setCachedEmbedding_size:
  assumes "mapSize c \<le> MAX_CACHE_SIZE"
  shows "mapSize (setCachedEmbedding text e c) \<le> MAX_CACHE_SIZE"
proof (cases "mapSize c \<ge> MAX_CACHE_SIZE")
  case True
  with assms have full: "length c = MAX_CACHE_SIZE" by (simp add: mapSize_def)
  then obtain kv m where c: "c = kv # m" by (cases c) (auto simp: MAX_CACHE_SIZE_def)
  have "length (mapDelete (fst kv) (kv # m)) \<le> length m" by (rule length_mapDelete_hd)
  then have "length (mapSet (hashText text) e (mapDelete (fst kv) (kv # m))) \<le> Suc (length m)"
    using length_mapSet [of "hashText text" e "mapDelete (fst kv) (kv # m)"] by linarith
  with True full c show ?thesis
    by (simp add: setCachedEmbedding_def mapSize_def)
next
  case False
  then have "length c < MAX_CACHE_SIZE" by (simp add: mapSize_def)
  with False length_mapSet [of "hashText text" e c] show ?thesis
    by (simp add: setCachedEmbedding_def mapSize_def)
qed

lemma applyOp_size:
  "mapSize c \<le> MAX_CACHE_SIZE \<Longrightarrow> mapSize (applyOp c x) \<le> MAX_CACHE_SIZE"
  by (cases x) (simp_all add: setCachedEmbedding_size)

lemma foldl_applyOp_size:
  "mapSize c \<le> MAX_CACHE_SIZE \<Longrightarrow> mapSize (foldl applyOp c ops) \<le> MAX_CACHE_SIZE"
  by (induction ops arbitrary: c) (simp_all add: applyOp_size)

text \<open>
  C4. Starting from the empty cache, after every run of \<open>setCachedEmbedding\<close> and
  \<open>getCachedEmbedding\<close> calls, and so after each single call of the run, the cache holds
  at most \<open>MAX_CACHE_SIZE = 100\<close> entries.
\<close>

theorem cache_never_exceeds_max:
  "mapSize (runOps (take n (ops :: 'f cacheOp list))) \<le> MAX_CACHE_SIZE \<and> MAX_CACHE_SIZE = 100"
proof -
  have "mapSize ([] :: 'f cache) \<le> MAX_CACHE_SIZE"
    by (simp add: mapSize_def)
  then have "mapSize (foldl applyOp [] (take n ops)) \<le> MAX_CACHE_SIZE"
    by (rule foldl_applyOp_size)
  then show ?thesis
    by (simp add: runOps_def MAX_CACHE_SIZE_def)
qed

text \<open>
  C10. For every text \<open>t\<close> and embedding \<open>e\<close> (empty or not) and every cache,
  \<open>getCachedEmbedding t\<close> right after \<open>setCachedEmbedding t e\<close> returns \<open>e\<close>: both
  derive the key from \<open>t\<close> with \<open>hashText\<close>.
\<close>

theorem get_after_set:
  "getCachedEmbedding t (setCachedEmbedding t e c) = Some e"
  by (simp add: getCachedEmbedding_def setCachedEmbedding_def mapGet_def map_of_mapSet Let_def)

text \<open>
  C5. When \<open>setCachedEmbedding\<close> is called on a cache that has reached the maximum size,
  the entry that leaves is the head of the insertion order, the oldest key still present,
  and no other: the call is \<open>Map.set\<close> on the cache without its first entry, every other
  old entry whose key is not the one being written stays as it was and in its place, the
  size does not grow, and the oldest key is absent afterwards unless the text written
  hashes to that very key (it is then re-entered as the newest entry).
\<close>

theorem eviction_drops_oldest:
  assumes "distinct (map fst c)" and "mapSize c \<ge> MAX_CACHE_SIZE"
  shows "c \<noteq> [] \<and>
         setCachedEmbedding t e c = mapSet (hashText t) e (tl c) \<and>
         filter (\<lambda>kv. fst kv \<noteq> hashText t) (setCachedEmbedding t e c)
           = filter (\<lambda>kv. fst kv \<noteq> hashText t) (tl c) \<and>
         mapSize (setCachedEmbedding t e c) \<le> mapSize c \<and>
         (hashText t \<noteq> fst (hd c) \<longrightarrow> mapGet (fst (hd c)) (setCachedEmbedding t e c) = None)"
proof -
  from assms(2) obtain kv m where c: "c = kv # m"
    by (cases c) (auto simp: mapSize_def MAX_CACHE_SIZE_def)
  from assms(1) c have fresh: "fst kv \<notin> fst ` set m" by simp
  from fresh have del: "mapDelete (fst kv) c = m"
    by (simp add: c mapDelete_hd mapDelete_fresh)
  have eq: "setCachedEmbedding t e c = mapSet (hashText t) e m"
    using assms(2) c del by (simp add: setCachedEmbedding_def)
  have keep: "filter (\<lambda>kv. fst kv \<noteq> hashText t) (mapSet (hashText t) e m)
                = filter (\<lambda>kv. fst kv \<noteq> hashText t) m"
    by (rule filter_mapSet_other)
  have size: "mapSize (mapSet (hashText t) e m) \<le> mapSize c"
    using length_mapSet [of "hashText t" e m] by (simp add: c mapSize_def)
  have gone: "hashText t \<noteq> fst kv \<longrightarrow> mapGet (fst kv) (mapSet (hashText t) e m) = None"
    using fresh by (simp add: mapGet_def map_of_mapSet_other map_of_eq_None_iff)
  show ?thesis
    using eq keep size gone by (simp add: c)
qed

theorem eviction_drops_oldest_witness:
  "distinct (map fst (map (\<lambda>i. (replicate i CHR ''k'', [real i])) [0..<100])) \<and>
   mapSize (map (\<lambda>i. (replicate i CHR ''k'', [real i])) [0..<100]) \<ge> MAX_CACHE_SIZE \<and>
   setCachedEmbedding ''camera'' [1] (map (\<lambda>i. (replicate i CHR ''k'', [real i])) [0..<100])
     = mapSet ''1367751899'' [1] (map (\<lambda>i. (replicate i CHR ''k'', [real i])) [1..<100]) \<and>
   mapGet [] (setCachedEmbedding ''camera'' [1]
      (map (\<lambda>i. (replicate i CHR ''k'', [real i])) [0..<100])) = None"
proof -
  let ?c = "map (\<lambda>i. (replicate i CHR ''k'', [real i])) [0..<100]"
  have "inj_on (\<lambda>i. replicate i CHR ''k'') (set [0..<100])"
    by (rule inj_onI) (auto dest: arg_cong [where f = length])
  then have d: "distinct (map fst ?c)"
    by (simp add: distinct_map comp_def)
  have f: "mapSize ?c \<ge> MAX_CACHE_SIZE"
    by (simp add: mapSize_def MAX_CACHE_SIZE_def)
  have k: "hashText ''camera'' = ''1367751899''"
    by code_simp
  have t: "tl ?c = map (\<lambda>i. (replicate i CHR ''k'', [real i])) [1..<100]"
    by (simp add: upt_conv_Cons [of 0] del: upt_Suc)
  have hd: "fst (hd ?c) = []"
    by (simp add: upt_conv_Cons [of 0] del: upt_Suc)
  have ne: "''1367751899'' \<noteq> ([] :: string)"
    by simp
  show ?thesis
    using eviction_drops_oldest [OF d f, of "''camera''" "[1]"] d f ne
    unfolding k t hd by blast
qed

section \<open>Properties of cosine similarity\<close>

lemma cosine_loop:
  assumes "length a = length b" and "n \<le> length a"
  shows "foldl (cosineStep ar a b) (z, z, z) [0..<n]
           = (foldl (fadd ar) z (map2 (fmul ar) (take n a) (take n b)),
              foldl (fadd ar) z (map (\<lambda>x. fmul ar x x) (take n a)),
              foldl (fadd ar) z (map (\<lambda>x. fmul ar x x) (take n b)))"
  using assms(2)
proof (induction n)
  case 0
  then show ?case by simp
next
  case (Suc n)
  then have n: "n < length a" "n < length b" using assms(1) by simp_all
  with Suc show ?case
    by (simp add: cosineStep_def arrayAt_def take_Suc_conv_app_nth)
qed

text \<open>
  C3. For vectors \<open>a\<close> and \<open>b\<close> of equal length, and in the arithmetic of the engine
  whatever it is, \<open>cosineSimilarity a b\<close> is the dot product divided by the product of the
  Euclidean norms, and it is 0 when a vector is empty or a norm is 0 (or NaN).
\<close>

theorem cosineSimilarity_meets_spec:
  assumes "length a = length b"
  shows "cosineSimilarity ar a b =
           (if a = [] \<or> b = []
               \<or> isZero ar (euclideanNorm_spec ar a) \<or> isNaN ar (euclideanNorm_spec ar a)
               \<or> isZero ar (euclideanNorm_spec ar b) \<or> isNaN ar (euclideanNorm_spec ar b)
            then fconst ar 0
            else fdiv ar (dotProduct_spec ar a b)
                   (fmul ar (euclideanNorm_spec ar a) (euclideanNorm_spec ar b)))"
proof (cases "a = []")
  case True
  then show ?thesis by (simp add: cosineSimilarity_def)
next
  case False
  with assms have b: "b \<noteq> []" by auto
  have loop: "foldl (cosineStep ar a b) (fconst ar 0, fconst ar 0, fconst ar 0) [0..<length a]
           = (dotProduct_spec ar a b,
              foldl (fadd ar) (fconst ar 0) (map (\<lambda>x. fmul ar x x) a),
              foldl (fadd ar) (fconst ar 0) (map (\<lambda>x. fmul ar x x) b))"
    using cosine_loop [OF assms order_refl, of ar "fconst ar 0"] assms
    by (simp add: dotProduct_spec_def)
  show ?thesis
    using False b
    by (simp add: cosineSimilarity_def loop euclideanNorm_spec_def jsFalsy_def Let_def)
qed

theorem cosineSimilarity_meets_spec_witness:
  "(let ar = \<lparr>fadd = (+), fsub = (-), fmul = (*), fdiv = (/), fsqrt = sqrt,
              fround = (\<lambda>x. of_int \<lfloor>x + 1 / 2\<rfloor>), fconst = of_rat, fnan = 0,
              isNaN = (\<lambda>x. False), isZero = (\<lambda>x. x = 0), fless = (<)\<rparr>
    in length [3, 4 :: real] = length [3, 4 :: real] \<and> cosineSimilarity ar [3, 4] [3, 4] = 1)"
proof -
  let ?ar = "\<lparr>fadd = (+), fsub = (-), fmul = (*), fdiv = (/), fsqrt = sqrt,
              fround = (\<lambda>x. of_int \<lfloor>x + 1 / 2\<rfloor>), fconst = of_rat, fnan = 0,
              isNaN = (\<lambda>x. False), isZero = (\<lambda>x. x = 0), fless = (<)\<rparr> :: real arith"
  have s: "sqrt 25 = 5"
    by (rule real_sqrt_unique) simp_all
  have n: "euclideanNorm_spec ?ar [3, 4] = 5"
    by (simp add: euclideanNorm_spec_def s)
  have d: "dotProduct_spec ?ar [3, 4] [3, 4] = 25"
    by (simp add: dotProduct_spec_def)
  have "cosineSimilarity ?ar [3, 4] [3, 4] = 1"
    using cosineSimilarity_meets_spec [of "[3, 4]" "[3, 4]" ?ar] by (simp add: n d)
  then show ?thesis
    by (simp add: Let_def)
qed

section \<open>Properties of the product search\<close>

text \<open>
  C1 fails on the code where two texts have the same checksum. The query \<open>Aa \<close> and the
  text \<open>BB \<close> of the first candidate (name \<open>BB\<close>, no description) both hash to 65504, so
  the candidate's lookup hits the entry that the query's embedding has just made: the
  candidate is scored with the query's embedding \<open>[1, 0]\<close> and not with its own, \<open>[0, 1]\<close>.
  Its own similarity to the query is 0 and that of each other candidate is 1, so by the
  claim the three others are returned; the code returns the colliding candidate first.
  The run uses exact arithmetic, which on the components 0 and 1 gives what double
  arithmetic gives.
\<close>

theorem hash_collision_ranks_by_another_text:
  "hashText ''BB '' = hashText ''Aa '' \<and>
   (let embedContent = (\<lambda>i text. if text = ''BB '' then EmbedOk (Some [0, 1 :: real])
                                   else EmbedOk (Some [1, 0]));
        products = [\<lparr>name = Some ''BB'', description = None, rest = ''p0''\<rparr>,
                    \<lparr>name = Some ''Cam1'', description = Some ''x'', rest = ''p1''\<rparr>,
                    \<lparr>name = Some ''Cam2'', description = Some ''x'', rest = ''p2''\<rparr>,
                    \<lparr>name = Some ''Cam3'', description = Some ''x'', rest = ''p3''\<rparr>];
        ar = \<lparr>fadd = (+), fsub = (-), fmul = (*), fdiv = (/), fsqrt = sqrt,
              fround = (\<lambda>x. of_int \<lfloor>x + 1 / 2\<rfloor>), fconst = of_rat, fnan = 0,
              isNaN = (\<lambda>x. False), isZero = (\<lambda>x. x = 0), fless = (<)\<rparr>;
        cleaned = map (cleanProduct (\<lambda>s. s)) products;
        seen = snd (getEmbedding (embedContent 0) ''Aa '' [])
    in map productText cleaned = [''BB '', ''Cam1 x'', ''Cam2 x'', ''Cam3 x''] \<and>
       embedContent 1 ''BB '' = EmbedOk (Some [0, 1]) \<and>
       productEmbeddings embedContent seen cleaned = [[1, 0], [1, 0], [1, 0], [1, 0]] \<and>
       cosineSimilarity ar [1, 0] [0, 1] = 0 \<and>
       cosineSimilarity ar [1, 0] [1, 0] = 1 \<and>
       returned (searchSAPProducts ar (\<lambda>s. s) (HttpOk (Some products)) embedContent ''Aa '' [])
         = Stringified [\<lparr>name = Some ''BB'', description = Some [], rest = ''p0''\<rparr>,
                        \<lparr>name = Some ''Cam1'', description = Some ''x'', rest = ''p1''\<rparr>,
                        \<lparr>name = Some ''Cam2'', description = Some ''x'', rest = ''p2''\<rparr>])"
proof -
  let ?embed = "\<lambda>(i :: nat) text. if text = ''BB '' then EmbedOk (Some [0, 1 :: real])
                                   else EmbedOk (Some [1, 0])"
  let ?products = "[\<lparr>name = Some ''BB'', description = None, rest = ''p0''\<rparr>,
                    \<lparr>name = Some ''Cam1'', description = Some ''x'', rest = ''p1''\<rparr>,
                    \<lparr>name = Some ''Cam2'', description = Some ''x'', rest = ''p2''\<rparr>,
                    \<lparr>name = Some ''Cam3'', description = Some ''x'', rest = ''p3''\<rparr>]"
  let ?cleaned = "[\<lparr>name = Some ''BB'', description = Some [], rest = ''p0''\<rparr>,
                    \<lparr>name = Some ''Cam1'', description = Some ''x'', rest = ''p1''\<rparr>,
                    \<lparr>name = Some ''Cam2'', description = Some ''x'', rest = ''p2''\<rparr>,
                    \<lparr>name = Some ''Cam3'', description = Some ''x'', rest = ''p3''\<rparr>]"
  let ?ar = "\<lparr>fadd = (+), fsub = (-), fmul = (*), fdiv = (/), fsqrt = sqrt,
              fround = (\<lambda>x. of_int \<lfloor>x + 1 / 2\<rfloor>), fconst = of_rat, fnan = 0,
              isNaN = (\<lambda>x. False), isZero = (\<lambda>x. x = 0), fless = (<)\<rparr> :: real arith"
  let ?seen = "[(''65504'', [1, 0 :: real])]"
  have kA: "hashText ''Aa '' = ''65504''" by code_simp
  have kB: "hashText ''BB '' = ''65504''" by code_simp
  have k1: "hashText ''Cam1 x'' \<noteq> ''65504''" by code_simp
  have k2: "hashText ''Cam2 x'' \<noteq> ''65504''" by code_simp
  have k3: "hashText ''Cam3 x'' \<noteq> ''65504''" by code_simp
  have cleaned: "map (cleanProduct (\<lambda>s. s)) ?products = ?cleaned"
    by (simp add: cleanProduct_def stripHtml_def truthy_def templ_def)
  have texts: "map productText ?cleaned = [''BB '', ''Cam1 x'', ''Cam2 x'', ''Cam3 x'']"
    by (simp add: productText_def templ_def)
  have query: "getEmbedding (?embed 0) ''Aa '' [] = ([1, 0], ?seen)"
    by (simp add: getEmbedding_def getCachedEmbedding_def mapGet_def setCachedEmbedding_def
          mapSize_def MAX_CACHE_SIZE_def kA Let_def)
  have hit: "getEmbedding (?embed 1) ''BB '' ?seen = ([1, 0], ?seen)"
    by (simp add: getEmbedding_def getCachedEmbedding_def mapGet_def kB)
  have m1: "fst (getEmbedding (?embed 2) ''Cam1 x'' ?seen) = [1, 0]"
    using k1 by (simp add: getEmbedding_def getCachedEmbedding_def mapGet_def Let_def)
  have m2: "fst (getEmbedding (?embed 3) ''Cam2 x'' ?seen) = [1, 0]"
    using k2 by (simp add: getEmbedding_def getCachedEmbedding_def mapGet_def Let_def)
  have m3: "fst (getEmbedding (?embed 4) ''Cam3 x'' ?seen) = [1, 0]"
    using k3 by (simp add: getEmbedding_def getCachedEmbedding_def mapGet_def Let_def)
  have embs: "productEmbeddings ?embed ?seen ?cleaned = [[1, 0], [1, 0], [1, 0], [1, 0]]"
    using hit m1 m2 m3
    by (simp add: productEmbeddings_def enumerate_eq_zip productText_def templ_def upt_rec)
  have c0: "cosineSimilarity ?ar [1, 0] [0, 1] = 0"
    by (simp add: cosineSimilarity_def cosineStep_def arrayAt_def jsFalsy_def numeral_2_eq_2)
  have c1: "cosineSimilarity ?ar [1, 0] [1, 0] = 1"
    by (simp add: cosineSimilarity_def cosineStep_def arrayAt_def jsFalsy_def numeral_2_eq_2)
  have scored: "productsWithScores ?ar ?embed [1, 0] ?seen ?cleaned
                  = map (\<lambda>p. (p, 1)) ?cleaned"
    by (simp add: productsWithScores_def embs c1)
  have ranked: "rankedProducts ?ar (map (\<lambda>p. (p, 1 :: real)) ?cleaned) = take 3 ?cleaned"
    by (simp add: rankedProducts_def arraySort_def sortsBefore_def)
  have out: "returned (searchSAPProducts ?ar (\<lambda>s. s) (HttpOk (Some ?products)) ?embed ''Aa '' [])
               = Stringified (take 3 ?cleaned)"
  proof -
    have "returned (searchSAPProducts ?ar (\<lambda>s. s) (HttpOk (Some ?products)) ?embed ''Aa '' [])
            = Stringified (rankedProducts ?ar (productsWithScores ?ar ?embed [1, 0] ?seen
                 (map (cleanProduct (\<lambda>s. s)) ?products)))"
      by (simp add: searchSAPProducts_def Let_def query del: list.map)
    then show ?thesis
      unfolding cleaned scored ranked .
  qed
  show ?thesis
    unfolding Let_def cleaned query
    using kA kB texts embs c0 c1 out by simp
qed

text \<open>
  C2. When the search has a cleaned candidate list of at most 2 products, the string
  returned is the serialization of that whole list, no text is handed to \<open>getEmbedding\<close>
  and the cache is untouched.
\<close>

theorem few_products_skip_ranking:
  assumes "cleanedProductsOf replaceChain response = Some cleanedProducts"
    and "length cleanedProducts \<le> 2"
  shows "searchSAPProducts ar replaceChain response embedContent query embeddingCache
           = \<lparr>returned = Stringified cleanedProducts, cacheAfter = embeddingCache, embedded = []\<rparr>"
  using assms
  by (auto simp: cleanedProductsOf_def searchSAPProducts_def Let_def
           split: searchResponse.splits option.splits if_splits)

theorem few_products_skip_ranking_witness:
  "searchSAPProducts
      \<lparr>fadd = (+), fsub = (-), fmul = (*), fdiv = (/), fsqrt = sqrt,
        fround = (\<lambda>x. of_int \<lfloor>x + 1 / 2\<rfloor>), fconst = of_rat, fnan = 0,
        isNaN = (\<lambda>x. False), isZero = (\<lambda>x. x = 0), fless = (<)\<rparr>
      (\<lambda>s. s)
      (HttpOk (Some [\<lparr>name = Some ''A'', description = None, rest = ''p1''\<rparr>,
                     \<lparr>name = None, description = Some ''b'', rest = ''p2''\<rparr>]))
      (\<lambda>i text. EmbedOk (Some [1])) ''camera'' [(''7'', [1, 2 :: real])]
     = \<lparr>returned = Stringified [\<lparr>name = Some ''A'', description = Some [], rest = ''p1''\<rparr>,
                                 \<lparr>name = Some [], description = Some ''b'', rest = ''p2''\<rparr>],
        cacheAfter = [(''7'', [1, 2])], embedded = []\<rparr>"
proof -
  let ?response = "HttpOk (Some [\<lparr>name = Some ''A'', description = None, rest = ''p1''\<rparr>,
                     \<lparr>name = None, description = Some ''b'', rest = ''p2''\<rparr>])"
  let ?cleaned = "[\<lparr>name = Some ''A'', description = Some [], rest = ''p1''\<rparr>,
                   \<lparr>name = Some [], description = Some ''b'', rest = ''p2''\<rparr>]"
  have h1: "cleanedProductsOf (\<lambda>s. s) ?response = Some ?cleaned"
    by (simp add: cleanedProductsOf_def cleanProduct_def stripHtml_def truthy_def templ_def)
  have h2: "length ?cleaned \<le> 2"
    by simp
  show ?thesis
    by (rule few_products_skip_ranking [OF h1 h2])
qed

text \<open>
  What \<open>searchSAPProducts\<close> of server.js returns, case by case: the error text when the call
  fails, \<open>No products found.\<close> when the body has no product list or an empty one, and a
  serialized product list otherwise.
\<close>

lemma server_search_results_by_case:
  "(response = HttpError \<longrightarrow>
      returned (searchSAPProducts ar replaceChain response embedContent query embeddingCache)
        = Text ''Error connecting to SAP Commerce Cloud.'') \<and>
   (response = HttpOk None \<or> response = HttpOk (Some []) \<longrightarrow>
      returned (searchSAPProducts ar replaceChain response embedContent query embeddingCache)
        = Text ''No products found.'') \<and>
   (\<forall>products. response = HttpOk (Some products) \<and> products \<noteq> [] \<longrightarrow>
      (\<exists>out. returned (searchSAPProducts ar replaceChain response embedContent query embeddingCache)
        = Stringified out))"
  by (auto simp: searchSAPProducts_def Let_def split: prod.splits)

text \<open>What the function of the command-line agent returns, case by case.\<close>

lemma part_000_search_results_by_case:
  "searchSAPProducts_part_000 HttpError = Text ''Error connecting to SAP Commerce Cloud.'' \<and>
   searchSAPProducts_part_000 (HttpOk None) = Text ''No products found.'' \<and>
   searchSAPProducts_part_000 (HttpOk (Some ps)) = Stringified ps"
  by (simp add: searchSAPProducts_part_000_def)

text \<open>
  C6 fails on the command-line agent of src/unnamed/part_000: on an empty product list its
  \<open>searchSAPProducts\<close> returns the serialized empty list, where the claim, and the function
  of the same name in server.js, have \<open>No products found.\<close>
\<close>

theorem part_000_empty_list_is_stringified:
  "searchSAPProducts_part_000 (HttpOk (Some [])) = Stringified [] \<and>
   searchSAPProducts_part_000 (HttpOk (Some [])) \<noteq> Text ''No products found.''"
  by (simp add: searchSAPProducts_part_000_def)

section \<open>Properties of the agent\<close>

text \<open>
  C9. For every assistant text, \<open>runAgent\<close> acts on at most one directive tag: when a
  \<open>[REVIEWS: code]\<close> tag matches, the only request is the one for the reviews of that code;
  otherwise, when a \<open>[VIEW: code]\<close> tag matches, the only request is the one for the product;
  otherwise, when a \<open>[SEARCH: query]\<close> tag matches, the only request is the product search;
  with no tag there is no request. A tag of lower precedence in the same text is ignored.
  The text that \<open>runAgent\<close> acts on is the answer of the model to the first prompt, or
  \<open>No response\<close> when the answer has no text; when the model fails, nothing is requested.
\<close>

theorem one_directive_by_precedence:
  "(\<forall>g. matchTag ''[REVIEWS: '' t = Some g \<longrightarrow>
        requests (dispatch e stringify userInput t c) = [Request GET (baseUrl e @ ''/'' @ siteId e @ ''/products/'' @ trim g @ ''/reviews'')
             [(''lang'', ''en''), (''curr'', ''USD'')] NoBody] \<and>
        ((\<exists>rs n a. result (dispatch e stringify userInput t c) = ReviewsFetched t rs n a) \<or>
         (\<exists>m. result (dispatch e stringify userInput t c) = ReviewsFailed m))) \<and>
   (\<forall>g. matchTag ''[REVIEWS: '' t = None \<and> matchTag ''[VIEW: '' t = Some g \<longrightarrow>
        requests (dispatch e stringify userInput t c) = [Request GET (baseUrl e @ ''/'' @ siteId e @ ''/products/'' @ trim g)
             [(''fields'', VIEW_FIELDS), (''lang'', ''en''), (''curr'', ''USD'')] NoBody] \<and>
        ((\<exists>d. result (dispatch e stringify userInput t c) = ProductViewed t d) \<or>
         (\<exists>m. result (dispatch e stringify userInput t c) = ProductViewFailed m))) \<and>
   (\<forall>q. matchTag ''[REVIEWS: '' t = None \<and> matchTag ''[VIEW: '' t = None \<and>
        matchTag ''[SEARCH: '' t = Some q \<longrightarrow>
        requests (dispatch e stringify userInput t c) = [Request GET (baseUrl e @ ''/'' @ siteId e @ ''/products/search'')
             [(''query'', q), (''fields'', SEARCH_FIELDS), (''pageSize'', ''5'')] NoBody] \<and>
        ((\<exists>r ps. result (dispatch e stringify userInput t c) = Searched r ps) \<or>
         (\<exists>m. result (dispatch e stringify userInput t c) = Failed m))) \<and>
   (matchTag ''[REVIEWS: '' t = None \<and> matchTag ''[VIEW: '' t = None \<and> matchTag ''[SEARCH: '' t = None \<longrightarrow>
        requests (dispatch e stringify userInput t c) = [] \<and>
        result (dispatch e stringify userInput t c) = Plain t) \<and>
   length (requests (dispatch e stringify userInput t c)) \<le> 1 \<and>
   (\<forall>answer. generateContent e 0
        (systemPrompt @ [CHR 0x0A, CHR 0x0A] @ ''User: '' @ userInput
           @ [CHR 0x0A, CHR 0x0A] @ ''Assistant:'') = LlmText answer \<longrightarrow>
      runAgent e stringify userInput c
        = dispatch e stringify userInput
            (case answer of None \<Rightarrow> ''No response''
             | Some s \<Rightarrow> if s = [] then ''No response'' else s) c) \<and>
   (\<forall>message. generateContent e 0
        (systemPrompt @ [CHR 0x0A, CHR 0x0A] @ ''User: '' @ userInput
           @ [CHR 0x0A, CHR 0x0A] @ ''Assistant:'') = LlmError message \<longrightarrow>
      runAgent e stringify userInput c
        = \<lparr>result = Failed (''Error: '' @ message), requests = [], cacheNow = c\<rparr>)"
proof -
  have step_B:
    "(\<forall>g. matchTag ''[REVIEWS: '' t = Some g \<longrightarrow>
        requests (dispatch e stringify userInput t c) = [Request GET (baseUrl e @ ''/'' @ siteId e @ ''/products/'' @ trim g @ ''/reviews'')
             [(''lang'', ''en''), (''curr'', ''USD'')] NoBody] \<and>
        ((\<exists>rs n a. result (dispatch e stringify userInput t c) = ReviewsFetched t rs n a) \<or>
         (\<exists>m. result (dispatch e stringify userInput t c) = ReviewsFailed m))) \<and>
     (\<forall>g. matchTag ''[REVIEWS: '' t = None \<and> matchTag ''[VIEW: '' t = Some g \<longrightarrow>
        requests (dispatch e stringify userInput t c) = [Request GET (baseUrl e @ ''/'' @ siteId e @ ''/products/'' @ trim g)
             [(''fields'', VIEW_FIELDS), (''lang'', ''en''), (''curr'', ''USD'')] NoBody] \<and>
        ((\<exists>d. result (dispatch e stringify userInput t c) = ProductViewed t d) \<or>
         (\<exists>m. result (dispatch e stringify userInput t c) = ProductViewFailed m))) \<and>
     (\<forall>q. matchTag ''[REVIEWS: '' t = None \<and> matchTag ''[VIEW: '' t = None \<and>
        matchTag ''[SEARCH: '' t = Some q \<longrightarrow>
        requests (dispatch e stringify userInput t c) = [Request GET (baseUrl e @ ''/'' @ siteId e @ ''/products/search'')
             [(''query'', q), (''fields'', SEARCH_FIELDS), (''pageSize'', ''5'')] NoBody] \<and>
        ((\<exists>r ps. result (dispatch e stringify userInput t c) = Searched r ps) \<or>
         (\<exists>m. result (dispatch e stringify userInput t c) = Failed m))) \<and>
     (matchTag ''[REVIEWS: '' t = None \<and> matchTag ''[VIEW: '' t = None \<and> matchTag ''[SEARCH: '' t = None \<longrightarrow>
        requests (dispatch e stringify userInput t c) = [] \<and>
        result (dispatch e stringify userInput t c) = Plain t) \<and>
     length (requests (dispatch e stringify userInput t c)) \<le> 1"
    by (auto simp: dispatch_def Let_def reviewsRequest_def viewRequest_def searchRequest_def
          occUrl_def LANG_CURR_def split: option.splits llmReply.splits)
  have spelled: "\<And>answer. textOr answer
      = (case answer of None \<Rightarrow> ''No response'' | Some s \<Rightarrow> if s = [] then ''No response'' else s)"
    by (simp add: textOr_def truthy_def templ_def split: option.splits)
  have step_A:
    "\<forall>answer. generateContent e 0
        (systemPrompt @ [CHR 0x0A, CHR 0x0A] @ ''User: '' @ userInput
           @ [CHR 0x0A, CHR 0x0A] @ ''Assistant:'') = LlmText answer \<longrightarrow>
      runAgent e stringify userInput c
        = dispatch e stringify userInput
            (case answer of None \<Rightarrow> ''No response''
             | Some s \<Rightarrow> if s = [] then ''No response'' else s) c"
    by (simp add: runAgent_def Let_def spelled)
  have failing:
    "\<forall>message. generateContent e 0
        (systemPrompt @ [CHR 0x0A, CHR 0x0A] @ ''User: '' @ userInput
           @ [CHR 0x0A, CHR 0x0A] @ ''Assistant:'') = LlmError message \<longrightarrow>
      runAgent e stringify userInput c
        = \<lparr>result = Failed (''Error: '' @ message), requests = [], cacheNow = c\<rparr>"
    by (simp add: runAgent_def Let_def)
  from step_B step_A failing show ?thesis
    by (intro conjI) simp_all
qed

theorem one_directive_by_precedence_witness:
  "requests (runAgent
      (\<lparr>baseUrl = ''occ'', siteId = ''shop'', axios = (\<lambda>r. None),
        generateContent = (\<lambda>i p. LlmText (Some ''[SEARCH: camera] [VIEW: 123] [REVIEWS: 9 ] ok'')),
        embedService = (\<lambda>i t. EmbedError), stripChain = (\<lambda>s. s),
        engine = \<lparr>fadd = (+), fsub = (-), fmul = (*), fdiv = (/), fsqrt = sqrt,
                   fround = (\<lambda>x. of_int \<lfloor>x + 1 / 2\<rfloor>), fconst = of_rat, fnan = 0,
                   isNaN = (\<lambda>x. False), isZero = (\<lambda>x. x = 0), fless = (<)\<rparr>\<rparr>
         :: (string, real) env)
      (\<lambda>ps. ''[]'') ''reviews of the camera please'' [])
     = [Request GET ''occ/shop/products/9/reviews'' [(''lang'', ''en''), (''curr'', ''USD'')] NoBody] \<and>
   requests (runAgent
      (\<lparr>baseUrl = ''occ'', siteId = ''shop'', axios = (\<lambda>r. None),
        generateContent = (\<lambda>i p. LlmText (Some ''[SEARCH: camera] [VIEW: 123] ok'')),
        embedService = (\<lambda>i t. EmbedError), stripChain = (\<lambda>s. s),
        engine = \<lparr>fadd = (+), fsub = (-), fmul = (*), fdiv = (/), fsqrt = sqrt,
                   fround = (\<lambda>x. of_int \<lfloor>x + 1 / 2\<rfloor>), fconst = of_rat, fnan = 0,
                   isNaN = (\<lambda>x. False), isZero = (\<lambda>x. x = 0), fless = (<)\<rparr>\<rparr>
         :: (string, real) env)
      (\<lambda>ps. ''[]'') ''show me the camera'' [])
     = [Request GET ''occ/shop/products/123''
          [(''fields'', VIEW_FIELDS), (''lang'', ''en''), (''curr'', ''USD'')] NoBody]"
proof -
  let ?ar = "\<lparr>fadd = (+), fsub = (-), fmul = (*), fdiv = (/), fsqrt = sqrt,
              fround = (\<lambda>x. of_int \<lfloor>x + 1 / 2\<rfloor>), fconst = of_rat, fnan = 0,
              isNaN = (\<lambda>x. False), isZero = (\<lambda>x. x = 0), fless = (<)\<rparr> :: real arith"
  let ?t1 = "''[SEARCH: camera] [VIEW: 123] [REVIEWS: 9 ] ok''"
  let ?t2 = "''[SEARCH: camera] [VIEW: 123] ok''"
  let ?e1 = "\<lparr>baseUrl = ''occ'', siteId = ''shop'', axios = (\<lambda>r. None),
        generateContent = (\<lambda>i p. LlmText (Some ?t1)),
        embedService = (\<lambda>i t. EmbedError), stripChain = (\<lambda>s. s), engine = ?ar\<rparr>
         :: (string, real) env"
  let ?e2 = "\<lparr>baseUrl = ''occ'', siteId = ''shop'', axios = (\<lambda>r. None),
        generateContent = (\<lambda>i p. LlmText (Some ?t2)),
        embedService = (\<lambda>i t. EmbedError), stripChain = (\<lambda>s. s), engine = ?ar\<rparr>
         :: (string, real) env"
  have r1: "matchTag ''[REVIEWS: '' ?t1 = Some ''9 ''"
    by code_simp
  have t1: "trim ''9 '' = ''9''"
    by code_simp
  have r2: "matchTag ''[REVIEWS: '' ?t2 = None"
    by code_simp
  have v2: "matchTag ''[VIEW: '' ?t2 = Some ''123''"
    by code_simp
  have t2: "trim ''123'' = ''123''"
    by code_simp
  have a1: "runAgent ?e1 (\<lambda>ps. ''[]'') ''reviews of the camera please'' []
              = dispatch ?e1 (\<lambda>ps. ''[]'') ''reviews of the camera please'' ?t1 []"
    using one_directive_by_precedence
      [of ?t1 ?e1 "\<lambda>ps. ''[]''" "''reviews of the camera please''" "[]"]
    by simp
  have b1: "requests (dispatch ?e1 (\<lambda>ps. ''[]'') ''reviews of the camera please'' ?t1 [])
              = [Request GET ''occ/shop/products/9/reviews'' [(''lang'', ''en''), (''curr'', ''USD'')] NoBody]"
    using one_directive_by_precedence
      [of ?t1 ?e1 "\<lambda>ps. ''[]''" "''reviews of the camera please''" "[]"] r1 t1
    by simp
  have a2: "runAgent ?e2 (\<lambda>ps. ''[]'') ''show me the camera'' []
              = dispatch ?e2 (\<lambda>ps. ''[]'') ''show me the camera'' ?t2 []"
    using one_directive_by_precedence
      [of ?t2 ?e2 "\<lambda>ps. ''[]''" "''show me the camera''" "[]"]
    by simp
  have b2: "requests (dispatch ?e2 (\<lambda>ps. ''[]'') ''show me the camera'' ?t2 [])
              = [Request GET ''occ/shop/products/123''
          [(''fields'', VIEW_FIELDS), (''lang'', ''en''), (''curr'', ''USD'')] NoBody]"
    using one_directive_by_precedence
      [of ?t2 ?e2 "\<lambda>ps. ''[]''" "''show me the camera''" "[]"] r2 v2 t2
    by simp
  show ?thesis
    unfolding a1 a2 b1 b2 by simp
qed

section \<open>Properties of the cart endpoints\<close>

lemma fetchUpdatedCart_session: "sessionAfter (fetchUpdatedCart e sess m f before) = sess"
  by (simp add: fetchUpdatedCart_def Let_def split: option.splits)

lemma fetchUpdatedCart_sent:
  "sent (fetchUpdatedCart e sess m f before)
     = before @ [Request GET
         (baseUrl e @ ''/'' @ siteId e @ ''/users/anonymous/carts/'' @ templ (cartGuid sess))
         CART_PARAMS NoBody]"
  by (simp add: fetchUpdatedCart_def Let_def cartUrl_def occUrl_def split: option.splits)

lemma addEntry_session: "sessionAfter (addEntry e sess code qty before) = sess"
  by (simp add: addEntry_def Let_def fetchUpdatedCart_session split: option.splits)

lemma addEntry_sent:
  "\<exists>later. sent (addEntry e sess code qty before)
     = before @ Request POST
         (baseUrl e @ ''/'' @ siteId e @ ''/users/anonymous/carts/'' @ templ (cartGuid sess) @ ''/entries'')
         LANG_CURR (EntryPayload code qty) # later \<and>
     set later \<subseteq> {Request GET
         (baseUrl e @ ''/'' @ siteId e @ ''/users/anonymous/carts/'' @ templ (cartGuid sess))
         CART_PARAMS NoBody}"
  by (simp add: addEntry_def Let_def fetchUpdatedCart_sent cartUrl_def occUrl_def
        split: option.splits)

lemma cartGet_sent:
  assumes "cartGuid sess = Some g" and "g \<noteq> []"
    and "u = baseUrl e @ ''/'' @ siteId e @ ''/users/anonymous/carts/'' @ g"
  shows "sent (cartGet e sess) = [Request GET u CART_PARAMS NoBody]"
  using assms
  by (simp add: cartGet_def Let_def truthy_def templ_def cartUrl_def occUrl_def
        split: option.splits)

lemma cartRemove_sent:
  assumes "cartGuid sess = Some g" and "g \<noteq> []"
    and "u = baseUrl e @ ''/'' @ siteId e @ ''/users/anonymous/carts/'' @ g"
  shows "\<exists>later. sent (cartRemove e sess entryId)
     = Request DELETE
         (u @ ''/entries/'' @ (case entryId of None \<Rightarrow> ''undefined'' | Some i \<Rightarrow> i))
         LANG_CURR NoBody # later \<and>
     set later \<subseteq> {Request GET u CART_PARAMS NoBody}"
  using assms
  by (simp add: cartRemove_def Let_def truthy_def templ_def cartUrl_def occUrl_def
        fetchUpdatedCart_sent split: option.splits)

lemma cartUpdate_sent:
  assumes "cartGuid sess = Some g" and "g \<noteq> []"
    and "u = baseUrl e @ ''/'' @ siteId e @ ''/users/anonymous/carts/'' @ g"
  shows "\<exists>later. sent (cartUpdate e sess entryId qty)
     = Request PATCH
         (u @ ''/entries/'' @ (case entryId of None \<Rightarrow> ''undefined'' | Some i \<Rightarrow> i))
         LANG_CURR (QuantityPayload qty) # later \<and>
     set later \<subseteq> {Request GET u CART_PARAMS NoBody}"
  using assms
  by (simp add: cartUpdate_def Let_def truthy_def templ_def cartUrl_def occUrl_def
        fetchUpdatedCart_sent split: option.splits)

lemma cartAdd_sent:
  assumes "cartGuid sess = Some g" and "g \<noteq> []"
    and "u = baseUrl e @ ''/'' @ siteId e @ ''/users/anonymous/carts/'' @ g"
  shows "sent (cartAdd e sess code qty) = [] \<or>
     (\<exists>later. sent (cartAdd e sess code qty)
        = Request POST (u @ ''/entries'') LANG_CURR (EntryPayload code qty) # later \<and>
        set later \<subseteq> {Request GET u CART_PARAMS NoBody})"
proof (cases "\<not> truthy code \<or> \<not> jsTruthy (engine e) qty")
  case True
  then show ?thesis by (auto simp: cartAdd_def)
next
  case False
  have t: "truthy (cartGuid sess)" "templ (cartGuid sess) = g"
    using assms by (simp_all add: truthy_def templ_def)
  show ?thesis
    using False t addEntry_sent [of e sess code qty "[]"] assms(3) by (auto simp: cartAdd_def)
qed

lemma first_then_rest:
  assumes "xs = first # later" and "set later \<subseteq> {other}" and "P first" and "P other"
  shows "\<forall>q\<in>set xs. P q"
  using assms by auto

lemma handler_keeps_session:
  "truthy (cartGuid sess) \<Longrightarrow> sessionAfter (cartHandler e sess r) = sess"
  by (cases r)
     (simp_all add: cartGet_def cartAdd_def cartRemove_def cartUpdate_def Let_def
        fetchUpdatedCart_session addEntry_session split: option.splits)

lemma handler_urls:
  assumes "cartGuid sess = Some g" and "g \<noteq> []"
    and "u = baseUrl e @ ''/'' @ siteId e @ ''/users/anonymous/carts/'' @ g"
  shows "\<forall>q\<in>set (sent (cartHandler e sess r)).
           requestUrl q = u \<or> requestUrl q = u @ ''/entries'' \<or>
           (\<exists>i. requestUrl q = u @ ''/entries/'' @ i)"
proof (cases r)
  case GetCart
  then show ?thesis
    using cartGet_sent [OF assms] by simp
next
  case (AddToCart code qty)
  from cartAdd_sent [OF assms, of code qty] show ?thesis
  proof
    assume "sent (cartAdd e sess code qty) = []"
    then show ?thesis by (simp add: AddToCart)
  next
    assume "\<exists>later. sent (cartAdd e sess code qty)
        = Request POST (u @ ''/entries'') LANG_CURR (EntryPayload code qty) # later \<and>
        set later \<subseteq> {Request GET u CART_PARAMS NoBody}"
    then obtain later where "sent (cartAdd e sess code qty)
        = Request POST (u @ ''/entries'') LANG_CURR (EntryPayload code qty) # later"
      and "set later \<subseteq> {Request GET u CART_PARAMS NoBody}"
      by blast
    then have "\<forall>q\<in>set (sent (cartAdd e sess code qty)).
           requestUrl q = u \<or> requestUrl q = u @ ''/entries'' \<or>
           (\<exists>i. requestUrl q = u @ ''/entries/'' @ i)"
      by (rule first_then_rest) simp_all
    then show ?thesis by (simp add: AddToCart)
  qed
next
  case (RemoveFromCart entryId)
  obtain later where "sent (cartRemove e sess entryId)
     = Request DELETE
         (u @ ''/entries/'' @ (case entryId of None \<Rightarrow> ''undefined'' | Some i \<Rightarrow> i))
         LANG_CURR NoBody # later"
    and "set later \<subseteq> {Request GET u CART_PARAMS NoBody}"
    using cartRemove_sent [OF assms, of entryId] by blast
  then have "\<forall>q\<in>set (sent (cartRemove e sess entryId)).
           requestUrl q = u \<or> requestUrl q = u @ ''/entries'' \<or>
           (\<exists>i. requestUrl q = u @ ''/entries/'' @ i)"
    by (rule first_then_rest) simp_all
  then show ?thesis by (simp add: RemoveFromCart)
next
  case (UpdateCart entryId qty)
  obtain later where "sent (cartUpdate e sess entryId qty)
     = Request PATCH
         (u @ ''/entries/'' @ (case entryId of None \<Rightarrow> ''undefined'' | Some i \<Rightarrow> i))
         LANG_CURR (QuantityPayload qty) # later"
    and "set later \<subseteq> {Request GET u CART_PARAMS NoBody}"
    using cartUpdate_sent [OF assms, of entryId qty] by blast
  then have "\<forall>q\<in>set (sent (cartUpdate e sess entryId qty)).
           requestUrl q = u \<or> requestUrl q = u @ ''/entries'' \<or>
           (\<exists>i. requestUrl q = u @ ''/entries/'' @ i)"
    by (rule first_then_rest) simp_all
  then show ?thesis by (simp add: UpdateCart)
qed

lemma cartRun_urls:
  assumes "cartGuid sess = Some g" and "g \<noteq> []"
    and "\<forall>(e, r)\<in>set evs. baseUrl e = base \<and> siteId e = site"
    and "u = base @ ''/'' @ site @ ''/users/anonymous/carts/'' @ g"
  shows "(\<forall>q\<in>set (fst (cartRun sess evs)).
            requestUrl q = u \<or> requestUrl q = u @ ''/entries'' \<or>
            (\<exists>i. requestUrl q = u @ ''/entries/'' @ i)) \<and>
         snd (cartRun sess evs) = sess"
  using assms(3)
proof (induction evs)
  case Nil
  then show ?case by simp
next
  case (Cons ev evs)
  obtain e r where ev: "ev = (e, r)" by (cases ev)
  have t: "truthy (cartGuid sess)" using assms(1,2) by (simp add: truthy_def)
  have keep: "sessionAfter (cartHandler e sess r) = sess"
    using t by (rule handler_keeps_session)
  have u: "u = baseUrl e @ ''/'' @ siteId e @ ''/users/anonymous/carts/'' @ g"
    using Cons.prems ev assms(4) by simp
  have here: "\<forall>q\<in>set (sent (cartHandler e sess r)).
           requestUrl q = u \<or> requestUrl q = u @ ''/entries'' \<or>
           (\<exists>i. requestUrl q = u @ ''/entries/'' @ i)"
    by (rule handler_urls [OF assms(1,2) u])
  have later: "(\<forall>q\<in>set (fst (cartRun sess evs)).
            requestUrl q = u \<or> requestUrl q = u @ ''/entries'' \<or>
            (\<exists>i. requestUrl q = u @ ''/entries/'' @ i)) \<and>
         snd (cartRun sess evs) = sess"
    using Cons.IH Cons.prems by simp
  show ?case
    using here later by (auto simp: ev keep Let_def split: prod.splits)
qed

text \<open>
  C7. When \<open>POST /api/cart/add\<close> has a valid body and finds no cart handle in the session,
  its first request creates an anonymous cart, and when that succeeds the session holds the
  guid that the platform returned. With a handle \<open>g\<close> in the session, \<open>GET /api/cart\<close>
  requests the cart at \<open>.../users/anonymous/carts/g\<close>, \<open>POST /api/cart/remove\<close> and
  \<open>POST /api/cart/update\<close> request \<open>.../carts/g/entries/<item>\<close> and then that cart, and
  every request of every run of cart operations goes to one of these URLs of \<open>g\<close>, while
  the session keeps \<open>g\<close>. \<open>GET /api/cart\<close> without a handle answers with the empty cart
  and sends nothing.
\<close>

theorem cart_handle_held_in_session:
  "(truthy code \<and> jsTruthy (engine e) qty \<and> \<not> truthy (cartGuid sess) \<longrightarrow>
      (\<exists>later. sent (cartAdd (e :: ('x, 'f) env) sess code qty)
          = Request POST (baseUrl e @ ''/'' @ siteId e @ ''/users/anonymous/carts'')
              CART_PARAMS EmptyObject # later) \<and>
      (\<forall>d. axios e (Request POST (baseUrl e @ ''/'' @ siteId e @ ''/users/anonymous/carts'')
                       CART_PARAMS EmptyObject) = Some d \<longrightarrow>
         sessionAfter (cartAdd e sess code qty) = sess\<lparr>cartGuid := guid d\<rparr>)) \<and>
   (\<forall>g. cartGuid sess = Some g \<and> g \<noteq> [] \<longrightarrow>
      (let u = baseUrl e @ ''/'' @ siteId e @ ''/users/anonymous/carts/'' @ g
       in sent (cartGet e sess) = [Request GET u CART_PARAMS NoBody] \<and>
          (\<exists>later. sent (cartRemove e sess entryId)
             = Request DELETE
                 (u @ ''/entries/'' @ (case entryId of None \<Rightarrow> ''undefined'' | Some i \<Rightarrow> i))
                 LANG_CURR NoBody # later \<and>
             set later \<subseteq> {Request GET u CART_PARAMS NoBody}) \<and>
          (\<exists>later. sent (cartUpdate e sess entryId qty)
             = Request PATCH
                 (u @ ''/entries/'' @ (case entryId of None \<Rightarrow> ''undefined'' | Some i \<Rightarrow> i))
                 LANG_CURR (QuantityPayload qty) # later \<and>
             set later \<subseteq> {Request GET u CART_PARAMS NoBody}) \<and>
          (\<forall>evs. (\<forall>(e', r)\<in>set evs. baseUrl e' = baseUrl e \<and> siteId e' = siteId e) \<longrightarrow>
             (\<forall>q\<in>set (fst (cartRun sess evs)).
                requestUrl q = u \<or> requestUrl q = u @ ''/entries'' \<or>
                (\<exists>i. requestUrl q = u @ ''/entries/'' @ i)) \<and>
             snd (cartRun sess evs) = sess))) \<and>
   (\<not> truthy (cartGuid sess) \<longrightarrow>
      cartGet e sess = \<lparr>status = 200, body = EmptyCart, sessionAfter = sess, sent = []\<rparr>)"
proof -
  let ?create = "Request POST (baseUrl e @ ''/'' @ siteId e @ ''/users/anonymous/carts'')
                   CART_PARAMS EmptyObject :: 'f request"
  have A: "truthy code \<and> jsTruthy (engine e) qty \<and> \<not> truthy (cartGuid sess) \<longrightarrow>
      (\<exists>later. sent (cartAdd e sess code qty) = ?create # later) \<and>
      (\<forall>d. axios e ?create = Some d \<longrightarrow>
         sessionAfter (cartAdd e sess code qty) = sess\<lparr>cartGuid := guid d\<rparr>)"
  proof (intro impI conjI allI)
    assume a: "truthy code \<and> jsTruthy (engine e) qty \<and> \<not> truthy (cartGuid sess)"
    show "\<exists>later. sent (cartAdd e sess code qty) = ?create # later"
      using a addEntry_sent [of e _ code qty "[?create]"]
      by (auto simp: cartAdd_def Let_def cartsUrl_def occUrl_def split: option.splits)
    fix d
    assume "axios e ?create = Some d"
    then show "sessionAfter (cartAdd e sess code qty) = sess\<lparr>cartGuid := guid d\<rparr>"
      using a by (simp add: cartAdd_def addEntry_session cartsUrl_def occUrl_def)
  qed
  have B: "\<forall>g. cartGuid sess = Some g \<and> g \<noteq> [] \<longrightarrow>
      (let u = baseUrl e @ ''/'' @ siteId e @ ''/users/anonymous/carts/'' @ g
       in sent (cartGet e sess) = [Request GET u CART_PARAMS NoBody] \<and>
          (\<exists>later. sent (cartRemove e sess entryId)
             = Request DELETE
                 (u @ ''/entries/'' @ (case entryId of None \<Rightarrow> ''undefined'' | Some i \<Rightarrow> i))
                 LANG_CURR NoBody # later \<and>
             set later \<subseteq> {Request GET u CART_PARAMS NoBody}) \<and>
          (\<exists>later. sent (cartUpdate e sess entryId qty)
             = Request PATCH
                 (u @ ''/entries/'' @ (case entryId of None \<Rightarrow> ''undefined'' | Some i \<Rightarrow> i))
                 LANG_CURR (QuantityPayload qty) # later \<and>
             set later \<subseteq> {Request GET u CART_PARAMS NoBody}) \<and>
          (\<forall>evs. (\<forall>(e', r)\<in>set evs. baseUrl e' = baseUrl e \<and> siteId e' = siteId e) \<longrightarrow>
             (\<forall>q\<in>set (fst (cartRun sess evs)).
                requestUrl q = u \<or> requestUrl q = u @ ''/entries'' \<or>
                (\<exists>i. requestUrl q = u @ ''/entries/'' @ i)) \<and>
             snd (cartRun sess evs) = sess))"
  proof (intro allI impI)
    fix g assume g: "cartGuid sess = Some g \<and> g \<noteq> []"
    then have g1: "cartGuid sess = Some g" and g2: "g \<noteq> []" by simp_all
    have run: "\<forall>evs. (\<forall>(e', r)\<in>set evs. baseUrl e' = baseUrl e \<and> siteId e' = siteId e) \<longrightarrow>
         (\<forall>q\<in>set (fst (cartRun sess evs)).
            requestUrl q = baseUrl e @ ''/'' @ siteId e @ ''/users/anonymous/carts/'' @ g \<or>
            requestUrl q = (baseUrl e @ ''/'' @ siteId e @ ''/users/anonymous/carts/'' @ g) @ ''/entries'' \<or>
            (\<exists>i. requestUrl q = (baseUrl e @ ''/'' @ siteId e @ ''/users/anonymous/carts/'' @ g) @ ''/entries/'' @ i)) \<and>
         snd (cartRun sess evs) = sess"
      using cartRun_urls [OF g1 g2 _ refl, of _ "baseUrl e" "siteId e"] by blast
    show "let u = baseUrl e @ ''/'' @ siteId e @ ''/users/anonymous/carts/'' @ g
       in sent (cartGet e sess) = [Request GET u CART_PARAMS NoBody] \<and>
          (\<exists>later. sent (cartRemove e sess entryId)
             = Request DELETE
                 (u @ ''/entries/'' @ (case entryId of None \<Rightarrow> ''undefined'' | Some i \<Rightarrow> i))
                 LANG_CURR NoBody # later \<and>
             set later \<subseteq> {Request GET u CART_PARAMS NoBody}) \<and>
          (\<exists>later. sent (cartUpdate e sess entryId qty)
             = Request PATCH
                 (u @ ''/entries/'' @ (case entryId of None \<Rightarrow> ''undefined'' | Some i \<Rightarrow> i))
                 LANG_CURR (QuantityPayload qty) # later \<and>
             set later \<subseteq> {Request GET u CART_PARAMS NoBody}) \<and>
          (\<forall>evs. (\<forall>(e', r)\<in>set evs. baseUrl e' = baseUrl e \<and> siteId e' = siteId e) \<longrightarrow>
             (\<forall>q\<in>set (fst (cartRun sess evs)).
                requestUrl q = u \<or> requestUrl q = u @ ''/entries'' \<or>
                (\<exists>i. requestUrl q = u @ ''/entries/'' @ i)) \<and>
             snd (cartRun sess evs) = sess)"
      unfolding Let_def
      using cartGet_sent [where e = e, OF g1 g2 refl]
        cartRemove_sent [where e = e and entryId = entryId, OF g1 g2 refl]
        cartUpdate_sent [where e = e and entryId = entryId and qty = qty, OF g1 g2 refl] run
      by (intro conjI) simp_all
  qed
  have C: "\<not> truthy (cartGuid sess) \<longrightarrow>
      cartGet e sess = \<lparr>status = 200, body = EmptyCart, sessionAfter = sess, sent = []\<rparr>"
    by (simp add: cartGet_def)
  from A B C show ?thesis
    by (intro conjI)
qed


theorem cart_handle_held_in_session_witness:
  "sessionAfter (cartAdd
      (\<lparr>baseUrl = ''occ'', siteId = ''shop'',
        axios = (\<lambda>r. if r = Request POST ''occ/shop/users/anonymous/carts'' CART_PARAMS EmptyObject
                      then Some \<lparr>products = None, reviews = None, guid = Some ''abc'', entries = None,
                                 subTotalValue = None, subTotalFormatted = None,
                                 totalTaxFormatted = None, totalPriceFormatted = None,
                                 totalItems = None\<rparr>
                      else None),
        generateContent = (\<lambda>i p. LlmText None), embedService = (\<lambda>i t. EmbedError),
        stripChain = (\<lambda>s. s),
        engine = \<lparr>fadd = (+), fsub = (-), fmul = (*), fdiv = (/), fsqrt = sqrt,
                   fround = (\<lambda>x. of_int \<lfloor>x + 1 / 2\<rfloor>), fconst = of_rat, fnan = 0,
                   isNaN = (\<lambda>x. False), isZero = (\<lambda>x. x = 0), fless = (<)\<rparr>\<rparr>
         :: (string, real) env)
      emptySession (Some ''301233'') (Some 1))
     = emptySession\<lparr>cartGuid := Some ''abc''\<rparr> \<and>
   sent (cartGet
      (\<lparr>baseUrl = ''occ'', siteId = ''shop'', axios = (\<lambda>r. None),
        generateContent = (\<lambda>i p. LlmText None), embedService = (\<lambda>i t. EmbedError),
        stripChain = (\<lambda>s. s),
        engine = \<lparr>fadd = (+), fsub = (-), fmul = (*), fdiv = (/), fsqrt = sqrt,
                   fround = (\<lambda>x. of_int \<lfloor>x + 1 / 2\<rfloor>), fconst = of_rat, fnan = 0,
                   isNaN = (\<lambda>x. False), isZero = (\<lambda>x. x = 0), fless = (<)\<rparr>\<rparr>
         :: (string, real) env)
      (emptySession\<lparr>cartGuid := Some ''abc''\<rparr>))
     = [Request GET ''occ/shop/users/anonymous/carts/abc'' CART_PARAMS NoBody] \<and>
   cartGet
      (\<lparr>baseUrl = ''occ'', siteId = ''shop'', axios = (\<lambda>r. None),
        generateContent = (\<lambda>i p. LlmText None), embedService = (\<lambda>i t. EmbedError),
        stripChain = (\<lambda>s. s),
        engine = \<lparr>fadd = (+), fsub = (-), fmul = (*), fdiv = (/), fsqrt = sqrt,
                   fround = (\<lambda>x. of_int \<lfloor>x + 1 / 2\<rfloor>), fconst = of_rat, fnan = 0,
                   isNaN = (\<lambda>x. False), isZero = (\<lambda>x. x = 0), fless = (<)\<rparr>\<rparr>
         :: (string, real) env) emptySession
     = \<lparr>status = 200, body = EmptyCart, sessionAfter = emptySession, sent = []\<rparr>"
proof -
  let ?ar = "\<lparr>fadd = (+), fsub = (-), fmul = (*), fdiv = (/), fsqrt = sqrt,
              fround = (\<lambda>x. of_int \<lfloor>x + 1 / 2\<rfloor>), fconst = of_rat, fnan = 0,
              isNaN = (\<lambda>x. False), isZero = (\<lambda>x. x = 0), fless = (<)\<rparr> :: real arith"
  let ?d = "\<lparr>products = None, reviews = None, guid = Some ''abc'', entries = None,
             subTotalValue = None, subTotalFormatted = None,
             totalTaxFormatted = None, totalPriceFormatted = None,
             totalItems = None\<rparr> :: (string, real) occData"
  let ?creating = "\<lparr>baseUrl = ''occ'', siteId = ''shop'',
        axios = (\<lambda>r. if r = Request POST ''occ/shop/users/anonymous/carts'' CART_PARAMS EmptyObject
                      then Some ?d else None),
        generateContent = (\<lambda>i p. LlmText None), embedService = (\<lambda>i t. EmbedError),
        stripChain = (\<lambda>s. s), engine = ?ar\<rparr> :: (string, real) env"
  let ?down = "\<lparr>baseUrl = ''occ'', siteId = ''shop'', axios = (\<lambda>r. None),
        generateContent = (\<lambda>i p. LlmText None), embedService = (\<lambda>i t. EmbedError),
        stripChain = (\<lambda>s. s), engine = ?ar\<rparr> :: (string, real) env"
  have valid: "truthy (Some ''301233'') \<and> jsTruthy (engine ?creating) (Some 1)
                 \<and> \<not> truthy (cartGuid emptySession)"
    by (simp add: truthy_def jsTruthy_def jsFalsy_def emptySession_def)
  have created: "axios ?creating
                   (Request POST (baseUrl ?creating @ ''/'' @ siteId ?creating @ ''/users/anonymous/carts'')
                      CART_PARAMS EmptyObject) = Some ?d"
    by simp
  have "sessionAfter (cartAdd ?creating emptySession (Some ''301233'') (Some 1))
          = emptySession\<lparr>cartGuid := guid ?d\<rparr>"
    by (rule cart_handle_held_in_session
          [of "Some ''301233''" ?creating "Some 1" emptySession,
           THEN conjunct1, THEN mp, OF valid, THEN conjunct2, THEN spec, THEN mp, OF created])
  then have a: "sessionAfter (cartAdd ?creating emptySession (Some ''301233'') (Some 1))
             = emptySession\<lparr>cartGuid := Some ''abc''\<rparr>"
    by simp
  have held: "cartGuid (emptySession\<lparr>cartGuid := Some ''abc''\<rparr>) = Some ''abc'' \<and> ''abc'' \<noteq> []"
    by simp
  have b: "sent (cartGet ?down (emptySession\<lparr>cartGuid := Some ''abc''\<rparr>))
             = [Request GET ''occ/shop/users/anonymous/carts/abc'' CART_PARAMS NoBody]"
    using cart_handle_held_in_session
      [of "Some ''301233''" ?down "Some 1" "emptySession\<lparr>cartGuid := Some ''abc''\<rparr>",
       THEN conjunct2, THEN conjunct1, THEN spec, THEN mp, OF held, unfolded Let_def,
       THEN conjunct1]
    by simp
  have none: "\<not> truthy (cartGuid emptySession)"
    by (simp add: truthy_def emptySession_def)
  have c: "cartGet ?down emptySession
             = \<lparr>status = 200, body = EmptyCart, sessionAfter = emptySession, sent = []\<rparr>"
    by (rule cart_handle_held_in_session
          [of "Some ''301233''" ?down "Some 1" emptySession,
           THEN conjunct2, THEN conjunct2, THEN mp, OF none])
  from a b c show ?thesis
    by simp
qed

section \<open>Properties of the server\<close>

lemma handle_keeps_empty_stores:
  assumes "carts srv = []" and "orders srv = []"
  shows "carts (snd (handle e stringify srv sid req)) = [] \<and>
         orders (snd (handle e stringify srv sid req)) = []"
  using assms
  by (cases req)
     (auto simp: handle_def register_def login_def whoAmI_def createOrder_def getOrder_def
        listOrders_def setSession_def mapGet_def Let_def split: option.splits)

lemma serve_keeps_empty_stores:
  assumes "carts srv = []" and "orders srv = []"
  shows "carts (serve stringify srv evs) = [] \<and> orders (serve stringify srv evs) = []"
  using assms
proof (induction evs arbitrary: srv)
  case Nil
  then show ?case by (simp add: serve_def)
next
  case (Cons ev evs)
  obtain e sid req where ev: "ev = (e, sid, req)" by (cases ev)
  have "carts (snd (handle e stringify srv sid req)) = [] \<and>
        orders (snd (handle e stringify srv sid req)) = []"
    using Cons.prems by (rule handle_keeps_empty_stores)
  then have "carts (serve stringify (snd (handle e stringify srv sid req)) evs) = [] \<and>
             orders (serve stringify (snd (handle e stringify srv sid req)) evs) = []"
    using Cons.IH by blast
  then show ?case
    by (simp add: serve_def ev)
qed

text \<open>
  C8. After every sequence of requests from the initial state, the \<open>carts\<close> map is empty
  and so is the \<open>orders\<close> map: no endpoint inserts into \<open>carts\<close>, and the only insertion
  into \<open>orders\<close> lies behind a cart that is not empty. So \<open>POST /api/orders/create\<close> answers
  every authenticated request with status 400 and the error \<open>Cart is empty\<close>.
\<close>

theorem carts_and_orders_stay_empty:
  "carts (serve stringify initialServer evs) = [] \<and>
   orders (serve stringify initialServer evs) = [] \<and>
   (\<forall>e sid shipping billing payment.
      truthy (userId (sessions (serve stringify initialServer evs) sid)) \<longrightarrow>
      fst (handle e stringify (serve stringify initialServer evs) sid
             (CreateOrder shipping billing payment))
        = (400, Error ''Cart is empty''))"
proof -
  have empty: "carts (serve stringify initialServer evs) = [] \<and>
               orders (serve stringify initialServer evs) = []"
    by (rule serve_keeps_empty_stores) (simp_all add: initialServer_def)
  then show ?thesis
    by (simp add: handle_def createOrder_def mapGet_def)
qed

theorem carts_and_orders_stay_empty_witness:
  "truthy (userId (sessions
      (serve (\<lambda>ps. ''[]'') initialServer
         [(\<lparr>baseUrl = ''occ'', siteId = ''shop'', axios = (\<lambda>r. None),
            generateContent = (\<lambda>i p. LlmText None), embedService = (\<lambda>i t. EmbedError),
            stripChain = (\<lambda>s. s),
            engine = \<lparr>fadd = (+), fsub = (-), fmul = (*), fdiv = (/), fsqrt = sqrt,
                       fround = (\<lambda>x. of_int \<lfloor>x + 1 / 2\<rfloor>), fconst = of_rat, fnan = 0,
                       isNaN = (\<lambda>x. False), isZero = (\<lambda>x. x = 0), fless = (<)\<rparr>\<rparr>
             :: (string, real) env, ''sid-1'',
           Register (Some ''ann@example.org'') (Some ''secret'') (Some ''Ann'') None ''uuid-1'')])
      ''sid-1'')) \<and>
   fst (handle
      (\<lparr>baseUrl = ''occ'', siteId = ''shop'', axios = (\<lambda>r. None),
        generateContent = (\<lambda>i p. LlmText None), embedService = (\<lambda>i t. EmbedError),
        stripChain = (\<lambda>s. s),
        engine = \<lparr>fadd = (+), fsub = (-), fmul = (*), fdiv = (/), fsqrt = sqrt,
                   fround = (\<lambda>x. of_int \<lfloor>x + 1 / 2\<rfloor>), fconst = of_rat, fnan = 0,
                   isNaN = (\<lambda>x. False), isZero = (\<lambda>x. x = 0), fless = (<)\<rparr>\<rparr>
         :: (string, real) env) (\<lambda>ps. ''[]'')
      (serve (\<lambda>ps. ''[]'') initialServer
         [(\<lparr>baseUrl = ''occ'', siteId = ''shop'', axios = (\<lambda>r. None),
            generateContent = (\<lambda>i p. LlmText None), embedService = (\<lambda>i t. EmbedError),
            stripChain = (\<lambda>s. s),
            engine = \<lparr>fadd = (+), fsub = (-), fmul = (*), fdiv = (/), fsqrt = sqrt,
                       fround = (\<lambda>x. of_int \<lfloor>x + 1 / 2\<rfloor>), fconst = of_rat, fnan = 0,
                       isNaN = (\<lambda>x. False), isZero = (\<lambda>x. x = 0), fless = (<)\<rparr>\<rparr>
             :: (string, real) env, ''sid-1'',
           Register (Some ''ann@example.org'') (Some ''secret'') (Some ''Ann'') None ''uuid-1'')])
      ''sid-1'' (CreateOrder (Some ''1 Main St'') (Some ''1 Main St'') (Some ''card'')))
     = (400, Error ''Cart is empty'')"
proof -
  let ?e = "\<lparr>baseUrl = ''occ'', siteId = ''shop'', axios = (\<lambda>r. None),
            generateContent = (\<lambda>i p. LlmText None), embedService = (\<lambda>i t. EmbedError),
            stripChain = (\<lambda>s. s),
            engine = \<lparr>fadd = (+), fsub = (-), fmul = (*), fdiv = (/), fsqrt = sqrt,
                       fround = (\<lambda>x. of_int \<lfloor>x + 1 / 2\<rfloor>), fconst = of_rat, fnan = 0,
                       isNaN = (\<lambda>x. False), isZero = (\<lambda>x. x = 0), fless = (<)\<rparr>\<rparr>
             :: (string, real) env"
  let ?evs = "[(?e, ''sid-1'',
           Register (Some ''ann@example.org'') (Some ''secret'') (Some ''Ann'') None ''uuid-1'')]"
  have auth: "truthy (userId (sessions (serve (\<lambda>ps. ''[]'') initialServer ?evs) ''sid-1''))"
    by (simp add: serve_def handle_def register_def initialServer_def truthy_def templ_def
          mapHas_def setSession_def emptySession_def Let_def)
  show ?thesis
    using carts_and_orders_stay_empty [of "\<lambda>ps. ''[]''" ?evs,
        THEN conjunct2, THEN conjunct2, THEN spec, THEN spec, THEN spec, THEN spec, THEN spec,
        THEN mp, OF auth, of ?e "Some ''1 Main St''" "Some ''1 Main St''" "Some ''card''"] auth
    by simp
qed

end
